theory Spec2Isabelle
  imports Main "HOL-Library.AList"
begin

section \<open>JavaScript values and the constants module\<close>

text \<open>
  Rejected promises and thrown exceptions are values: \<open>parseError(error).isUserCancelledError\<close>
  holds of \<open>UserCancelledError\<close> only; every other failure is an \<open>Error\<close> with its message,
  or the error \<open>nonNullProp\<close> throws for a property that is not set.
\<close>

datatype error = UserCancelledError | Error string | NullPropError string

definition isUserCancelledError :: "error \<Rightarrow> bool" where
  "isUserCancelledError e =
     (case e of UserCancelledError \<Rightarrow> True | Error m \<Rightarrow> False | NullPropError p \<Rightarrow> False)"

text \<open>
  A value of type \<open>string | undefined\<close> is a \<open>string option\<close>; in a condition it counts as
  true when it is defined and not the empty string.
\<close>

definition truthy :: "string option \<Rightarrow> bool" where
  "truthy v = (case v of None \<Rightarrow> False | Some s \<Rightarrow> s \<noteq> [])"

type_synonym ProjectRuntime = string
type_synonym ProjectLanguage = string

text \<open>
  The module \<open>constants\<close> is imported by every source file, but its text is not among the
  files embedded here. Its string enums \<open>ProjectLanguage\<close> and \<open>ProjectRuntime\<close> and its file names are
  taken as a parameter: a record of the members the code mentions.
\<close>

record constants =
  CSharp :: ProjectLanguage
  CSharpScript :: ProjectLanguage
  FSharp :: ProjectLanguage
  Java :: ProjectLanguage
  Python :: ProjectLanguage
  TypeScript :: ProjectLanguage
  v1 :: ProjectRuntime
  v2 :: ProjectRuntime
  hostFileName :: string
  tasksFileName :: string
  settingsFileName :: string
  vscodeFolderName :: string
  extInstallCommand :: string
  extensionPrefix :: string

section \<open>createFunctionAppSettings\<close>

record NameValuePair =
  name :: string
  val :: string

record IAppSettingsContext =
  storageConnectionString :: string
  fileShareName :: string
  os :: string
  runtime :: "string option"

text \<open>
  The object returned by \<open>getCliFeedAppSettings\<close> is the list of its entries in the order of
  \<open>Object.keys\<close>; the loop over the keys pushes one pair per entry. The feed is a network
  call, so it can reject, and the rejection leaves the function.
\<close>

definition createFunctionAppSettings ::
  "constants \<Rightarrow> (ProjectRuntime \<Rightarrow> error + (string \<times> string) list) \<Rightarrow> IAppSettingsContext \<Rightarrow>
   ProjectRuntime \<Rightarrow> ProjectLanguage option \<Rightarrow> error + NameValuePair list" where
  "createFunctionAppSettings K getCliFeedAppSettings ctx projectRuntime projectLanguage =
     (case getCliFeedAppSettings projectRuntime of
        Inl e \<Rightarrow> Inl e
      | Inr cliFeedAppSettings \<Rightarrow>
          (let appSettings = [];
               appSettings = appSettings @
                 map (\<lambda>(key, v). \<lparr>name = key, val = v\<rparr>) cliFeedAppSettings;
               appSettings = appSettings @
                 [\<lparr>name = ''AzureWebJobsStorage'', val = storageConnectionString ctx\<rparr>];
               appSettings =
                 (if projectRuntime = v1 K
                  then appSettings @
                    [\<lparr>name = ''AzureWebJobsDashboard'', val = storageConnectionString ctx\<rparr>]
                  else appSettings);
               appSettings =
                 (if os ctx = ''windows''
                  then appSettings @
                    [\<lparr>name = ''WEBSITE_CONTENTAZUREFILECONNECTIONSTRING'',
                      val = storageConnectionString ctx\<rparr>,
                     \<lparr>name = ''WEBSITE_CONTENTSHARE'', val = fileShareName ctx\<rparr>]
                  else appSettings);
               appSettings =
                 (case runtime ctx of
                    None \<Rightarrow> appSettings
                  | Some r \<Rightarrow>
                      if r \<noteq> [] then appSettings @ [\<lparr>name = ''FUNCTIONS_WORKER_RUNTIME'', val = r\<rparr>]
                      else appSettings);
               appSettings =
                 (if os ctx \<noteq> ''linux'' \<and>
                     \<not> (projectLanguage = Some (CSharpScript K) \<and> projectRuntime = v1 K)
                  then appSettings @ [\<lparr>name = ''WEBSITE_RUN_FROM_PACKAGE'', val = ''1''\<rparr>]
                  else appSettings)
           in Inr appSettings))"

text \<open>
  The pairs the function pushes after the entries of the feed, written as one list. It is used to
  state and prove properties of \<open>createFunctionAppSettings\<close>; the lemma
  \<open>createFunctionAppSettings_append\<close> relates the two.
\<close>

definition pushedSettings ::
  "constants \<Rightarrow> IAppSettingsContext \<Rightarrow> ProjectRuntime \<Rightarrow> ProjectLanguage option \<Rightarrow>
   NameValuePair list" where
  "pushedSettings K ctx projectRuntime projectLanguage =
     [\<lparr>name = ''AzureWebJobsStorage'', val = storageConnectionString ctx\<rparr>] @
     (if projectRuntime = v1 K
      then [\<lparr>name = ''AzureWebJobsDashboard'', val = storageConnectionString ctx\<rparr>] else []) @
     (if os ctx = ''windows''
      then [\<lparr>name = ''WEBSITE_CONTENTAZUREFILECONNECTIONSTRING'',
              val = storageConnectionString ctx\<rparr>,
            \<lparr>name = ''WEBSITE_CONTENTSHARE'', val = fileShareName ctx\<rparr>] else []) @
     (case runtime ctx of
        None \<Rightarrow> []
      | Some r \<Rightarrow> if r \<noteq> [] then [\<lparr>name = ''FUNCTIONS_WORKER_RUNTIME'', val = r\<rparr>] else []) @
     (if os ctx \<noteq> ''linux'' \<and>
         \<not> (projectLanguage = Some (CSharpScript K) \<and> projectRuntime = v1 K)
      then [\<lparr>name = ''WEBSITE_RUN_FROM_PACKAGE'', val = ''1''\<rparr>] else [])"

section \<open>Strings\<close>

text \<open>
  Strings are byte strings here. \<open>toLowerCase\<close> and the letter class of a case-insensitive
  regular expression act on the ASCII letters; every other byte is left alone and is not a letter
  (a regular expression without the \<open>u\<close> flag never folds a character beyond ASCII onto an
  ASCII letter).
\<close>

definition isLetter :: "char \<Rightarrow> bool" where
  "isLetter c = (c \<in> set (''abcdefghijklmnopqrstuvwxyz'' @ ''ABCDEFGHIJKLMNOPQRSTUVWXYZ''))"

definition toLowerCase_char :: "char \<Rightarrow> char" where
  "toLowerCase_char c =
     (case map_of (zip ''ABCDEFGHIJKLMNOPQRSTUVWXYZ'' ''abcdefghijklmnopqrstuvwxyz'') c of
        None \<Rightarrow> c
      | Some l \<Rightarrow> l)"

definition toLowerCase :: "string \<Rightarrow> string" where
  "toLowerCase s = map toLowerCase_char s"

text \<open>\<open>contents.includes(t)\<close>: \<open>t\<close> occurs somewhere in \<open>contents\<close>.\<close>

fun includes_str :: "string \<Rightarrow> string \<Rightarrow> bool" where
  "includes_str [] t = (t = [])"
| "includes_str (c # cs) t = (take (length t) (c # cs) = t \<or> includes_str cs t)"

text \<open>
  \<open>path.join\<close> for two segments, as the POSIX variant of the platform has it: the segments
  that are not empty are joined with a slash and the result is normalised. Normalising drops
  empty and \<open>.\<close> segments, lets \<open>..\<close> remove the segment before it (above the root of an
  absolute path it is dropped, in a relative path it is kept), and keeps a leading and a
  trailing slash.
\<close>

fun splitPath :: "string \<Rightarrow> string list" where
  "splitPath [] = [[]]"
| "splitPath (c # cs) =
     (if c = CHR ''/'' then [] # splitPath cs
      else (case splitPath cs of [] \<Rightarrow> [[c]] | s # ss \<Rightarrow> (c # s) # ss))"

fun normalizeSegments :: "bool \<Rightarrow> string list \<Rightarrow> string list \<Rightarrow> string list" where
  "normalizeSegments allowAboveRoot res [] = res"
| "normalizeSegments allowAboveRoot res (s # ss) =
     (if s = [] \<or> s = ''.'' then normalizeSegments allowAboveRoot res ss
      else if s = ''..''
      then (if res \<noteq> [] \<and> last res \<noteq> ''..''
            then normalizeSegments allowAboveRoot (butlast res) ss
            else if allowAboveRoot then normalizeSegments allowAboveRoot (res @ [''..'']) ss
            else normalizeSegments allowAboveRoot res ss)
      else normalizeSegments allowAboveRoot (res @ [s]) ss)"

fun joinSegments :: "string list \<Rightarrow> string" where
  "joinSegments [] = []"
| "joinSegments [s] = s"
| "joinSegments (s # t # ss) = s @ ''/'' @ joinSegments (t # ss)"

definition path_normalize :: "string \<Rightarrow> string" where
  "path_normalize p =
     (case p of
        [] \<Rightarrow> ''.''
      | c # cs \<Rightarrow>
          (let isAbsolute = (c = CHR ''/'');
               trailingSeparator = (last p = CHR ''/'');
               body = joinSegments (normalizeSegments (\<not> isAbsolute) [] (splitPath p))
           in if body = []
              then (if isAbsolute then ''/'' else if trailingSeparator then ''./'' else ''.'')
              else (if isAbsolute then ''/'' else []) @ body @
                   (if trailingSeparator then ''/'' else [])))"

definition path_join :: "string \<Rightarrow> string \<Rightarrow> string" where
  "path_join a b =
     path_normalize (if a = [] then b else if b = [] then a else a @ ''/'' @ b)"

text \<open>
  \<open>localize(key, text, args)\<close> is kept as the key with its arguments; the module \<open>localize\<close>
  is not among the files embedded here.
\<close>

datatype message = Localized string "string list"

section \<open>sortTemplates\<close>

datatype TemplateFilter = All_tf | Core | Verified

record IBindingSetting =
  name_s :: string

record IFunctionTemplate =
  id_t :: string
  name_t :: string
  isHttpTrigger :: bool
  isTimerTrigger :: bool
  userPromptedSettings :: "IBindingSetting list"

text \<open>
  The regular expression \<open>/httptrigger($|[^a-z])/i\<close>. \<open>matchesAt s\<close>: \<open>s\<close> starts with the
  word in any case, and the word is followed by the end of the string or by a character that is
  not a letter (under the flag \<open>i\<close> the class \<open>[^a-z]\<close> excludes the capital letters too).
  \<open>regExp_test\<close> tries every start position, as \<open>RegExp.prototype.test\<close> does.
\<close>

definition matchesAt :: "string \<Rightarrow> bool" where
  "matchesAt s =
     (toLowerCase (take 11 s) = ''httptrigger'' \<and>
      (case drop 11 s of [] \<Rightarrow> True | c # cs \<Rightarrow> \<not> isLetter c))"

fun regExp_test :: "string \<Rightarrow> bool" where
  "regExp_test [] = matchesAt []"
| "regExp_test (c # cs) = (matchesAt (c # cs) \<or> regExp_test cs)"

text \<open>
  \<open>String.prototype.localeCompare\<close> belongs to the platform and depends on its locale, so the
  comparator takes it as a parameter.
\<close>

definition sortTemplates ::
  "(string \<Rightarrow> string \<Rightarrow> int) \<Rightarrow> IFunctionTemplate \<Rightarrow> IFunctionTemplate \<Rightarrow> TemplateFilter \<Rightarrow> int" where
  "sortTemplates localeCompare a b templateFilter =
     (if templateFilter = Verified \<and> regExp_test (id_t a) then - 1
      else if templateFilter = Verified \<and> regExp_test (id_t b) then 1
      else localeCompare (name_t a) (name_t b))"

text \<open>
  Modelled from the spec: \<open>localeCompare\<close> is not code of the repository; the spec calls the
  order it gives "case-insensitive alphabetical". \<open>caseInsensitiveCompare\<close> is that order on
  ASCII strings, with the results \<open>-1\<close>, \<open>0\<close> and \<open>1\<close>. It serves as the sample comparator.
\<close>

fun caseInsensitiveCompare :: "string \<Rightarrow> string \<Rightarrow> int" where
  "caseInsensitiveCompare [] [] = 0"
| "caseInsensitiveCompare [] (d # ds) = - 1"
| "caseInsensitiveCompare (c # cs) [] = 1"
| "caseInsensitiveCompare (c # cs) (d # ds) =
     (let m = (of_char (toLowerCase_char c) :: nat); n = (of_char (toLowerCase_char d) :: nat)
      in if m < n then - 1 else if n < m then 1 else caseInsensitiveCompare cs ds)"

section \<open>The wizard context of function creation\<close>

text \<open>
  \<open>IFunctionWizardContext\<close> with the properties the sources read. The code also writes
  properties by computed name (\<open>wizardContext[key.toLowerCase()] = ...\<close>): \<open>setProperty_wc\<close>
  is that assignment. Two of the properties read in the sources have a lower-case name,
  \<open>language\<close> and \<open>runtime\<close>, so a computed name can reach them; every other name lands
  in \<open>otherProperties\<close>, kept in insertion order.
\<close>

record IFunctionWizardContext =
  language :: "ProjectLanguage option"
  runtime_w :: "ProjectRuntime option"
  projectPath :: string
  workspacePath :: string
  openBehavior :: "string option"
  functionTemplate :: "IFunctionTemplate option"
  functionName :: "string option"
  otherProperties :: "(string \<times> string option) list"

definition setProperty_wc ::
  "IFunctionWizardContext \<Rightarrow> string \<Rightarrow> string option \<Rightarrow> IFunctionWizardContext" where
  "setProperty_wc wizardContext key v =
     (if key = ''language'' then wizardContext\<lparr>language := v\<rparr>
      else if key = ''runtime'' then wizardContext\<lparr>runtime_w := v\<rparr>
      else wizardContext\<lparr>otherProperties := AList.update key v (otherProperties wizardContext)\<rparr>)"

section \<open>JSON documents and the file system\<close>

text \<open>
  A parsed JSON document. Numbers are integers here: the code only tests a value for truth, and
  a number counts as false exactly when it is zero.
\<close>

datatype json =
  JNull
| JBool bool
| JNum int
| JStr string
| JArr "json list"
| JObj "(string \<times> json) list"

text \<open>The truth of a property value in a condition; \<open>None\<close> is \<open>undefined\<close>.\<close>

definition jsTruthy :: "json option \<Rightarrow> bool" where
  "jsTruthy v =
     (case v of
        None \<Rightarrow> False
      | Some JNull \<Rightarrow> False
      | Some (JBool b) \<Rightarrow> b
      | Some (JNum n) \<Rightarrow> n \<noteq> 0
      | Some (JStr s) \<Rightarrow> s \<noteq> []
      | Some (JArr xs) \<Rightarrow> True
      | Some (JObj props) \<Rightarrow> True)"

text \<open>
  Reading a property: \<open>null\<close> has none and raises a TypeError; an object gives the value or
  \<open>undefined\<close>; any other value has no property of such a name.
\<close>

definition getProperty :: "json \<Rightarrow> string \<Rightarrow> error + json option" where
  "getProperty j key =
     (case j of
        JNull \<Rightarrow> Inl (Error ''TypeError'')
      | JObj props \<Rightarrow> Inr (map_of props key)
      | JBool b \<Rightarrow> Inr None
      | JNum n \<Rightarrow> Inr None
      | JStr s \<Rightarrow> Inr None
      | JArr xs \<Rightarrow> Inr None)"

text \<open>
  Writing a property: an object replaces the value in place or gains the property at its end.
  An array takes the property, but it is not an element and is not written out with the
  document. A primitive value rejects the assignment (the code is a class body, so strict).
\<close>

definition setProperty :: "json \<Rightarrow> string \<Rightarrow> json \<Rightarrow> error + json" where
  "setProperty j key v =
     (case j of
        JObj props \<Rightarrow> Inr (JObj (AList.update key v props))
      | JArr xs \<Rightarrow> Inr (JArr xs)
      | JNull \<Rightarrow> Inl (Error ''TypeError'')
      | JBool b \<Rightarrow> Inl (Error ''TypeError'')
      | JNum n \<Rightarrow> Inl (Error ''TypeError'')
      | JStr s \<Rightarrow> Inl (Error ''TypeError''))"

text \<open>
  The file system (\<open>fs-extra\<close>): a path is absent, a directory, or a file with its text; a
  read-only file cannot be written. \<open>writes\<close> logs the paths written, in order. Parsing and
  printing JSON are the platform's: the functions that use them take \<open>JSON_parse\<close> (\<open>None\<close>
  for a syntax error) and \<open>JSON_stringify\<close> as parameters.
\<close>

datatype fsEntry = File string | ReadOnlyFile string | Directory

record fileSystem =
  files :: "string \<rightharpoonup> fsEntry"
  writes :: "string list"

definition pathExists :: "fileSystem \<Rightarrow> string \<Rightarrow> bool" where
  "pathExists fs p = (files fs p \<noteq> None)"

definition readFile :: "fileSystem \<Rightarrow> string \<Rightarrow> error + string" where
  "readFile fs p =
     (case files fs p of
        None \<Rightarrow> Inl (Error ''ENOENT'')
      | Some Directory \<Rightarrow> Inl (Error ''EISDIR'')
      | Some (File s) \<Rightarrow> Inr s
      | Some (ReadOnlyFile s) \<Rightarrow> Inr s)"

definition readJSON :: "(string \<Rightarrow> json option) \<Rightarrow> fileSystem \<Rightarrow> string \<Rightarrow> error + json" where
  "readJSON JSON_parse fs p =
     (case readFile fs p of
        Inl e \<Rightarrow> Inl e
      | Inr s \<Rightarrow> (case JSON_parse s of None \<Rightarrow> Inl (Error ''SyntaxError'') | Some j \<Rightarrow> Inr j))"

definition writeFormattedJson ::
  "(json \<Rightarrow> string) \<Rightarrow> fileSystem \<Rightarrow> string \<Rightarrow> json \<Rightarrow> error + fileSystem" where
  "writeFormattedJson JSON_stringify fs p j =
     (case files fs p of
        Some Directory \<Rightarrow> Inl (Error ''EISDIR'')
      | Some (ReadOnlyFile s) \<Rightarrow> Inl (Error ''EACCES'')
      | Some (File s) \<Rightarrow>
          Inr (fs\<lparr>files := (files fs)(p \<mapsto> File (JSON_stringify j)), writes := writes fs @ [p]\<rparr>)
      | None \<Rightarrow>
          Inr (fs\<lparr>files := (files fs)(p \<mapsto> File (JSON_stringify j)), writes := writes fs @ [p]\<rparr>))"

definition errorMessage :: "error \<Rightarrow> string" where
  "errorMessage e =
     (case e of UserCancelledError \<Rightarrow> ''Operation cancelled.'' | Error m \<Rightarrow> m
      | NullPropError p \<Rightarrow> p)"

section \<open>FunctionCreateStepBase\<close>

record ICachedFunction =
  projectPath_c :: string
  newFilePath_c :: string
  isHttpTrigger_c :: bool

definition cacheKey :: string where
  "cacheKey = ''azFuncPostFunctionCreate''"

text \<open>
  What a create step works with: the abstract \<open>executeCore\<close> of the language's subclass, which
  returns the path of the new file or rejects and may change files on the way; the platform's
  JSON functions; and the editor (\<open>getContainingWorkspace\<close> finds a workspace folder or not,
  \<open>openTextDocument\<close> opens the file or fails).
\<close>

record createStepEnv =
  executeCore :: "IFunctionWizardContext \<Rightarrow> fileSystem \<Rightarrow> (error + string) \<times> fileSystem"
  JSON_parse :: "string \<Rightarrow> json option"
  JSON_stringify :: "json \<Rightarrow> string"
  getContainingWorkspace :: "string \<Rightarrow> bool"
  openTextDocument :: "string \<Rightarrow> bool"

text \<open>
  The only callback the code hands to \<open>setTimeout\<close> clears the cached function.
  The state of the extension host: the files, the durable \<open>globalState\<close>, the timers set
  (delay in milliseconds and callback), the telemetry properties and progress messages of the
  action, the calls of \<open>runPostFunctionCreateSteps\<close> and the documents it has shown.
\<close>

datatype timerCallback = ClearCachedFunction

record extState =
  disk :: fileSystem
  globalState :: "string \<rightharpoonup> ICachedFunction"
  timers :: "(nat \<times> timerCallback) list"
  properties :: "(string \<times> string option) list"
  progress :: "message list"
  postFunctionCreate :: "ICachedFunction list"
  shownDocuments :: "string list"

definition runTimerCallback :: "timerCallback \<Rightarrow> extState \<Rightarrow> extState" where
  "runTimerCallback cb st =
     (case cb of ClearCachedFunction \<Rightarrow> st\<lparr>globalState := (globalState st)(cacheKey := None)\<rparr>)"


definition restartExtensionHost :: "extState \<Rightarrow> extState" where
  "restartExtensionHost st = st\<lparr>timers := []\<rparr>"

text \<open>
  \<open>runPostFunctionCreateSteps\<close> starts its work and does not wait for it; the work runs under
  \<open>callWithTelemetryAndErrorHandling\<close>, which keeps every failure to itself. The state
  records the call and, when the project is in the workspace, the file exists and the editor
  opens it, the document shown.
\<close>

definition runPostFunctionCreateSteps :: "createStepEnv \<Rightarrow> ICachedFunction \<Rightarrow> extState \<Rightarrow> extState" where
  "runPostFunctionCreateSteps env func st =
     st\<lparr>postFunctionCreate := postFunctionCreate st @ [func],
        shownDocuments :=
          (if getContainingWorkspace env (projectPath_c func) \<and>
              pathExists (disk st) (newFilePath_c func) \<and> openTextDocument env (newFilePath_c func)
           then shownDocuments st @ [newFilePath_c func]
           else shownDocuments st)\<rparr>"


definition defaultExtensionBundle :: json where
  "defaultExtensionBundle =
     JObj [(''id'', JStr ''Microsoft.Azure.Functions.ExtensionBundle''),
           (''version'', JStr ''[1.*, 2.0.0)'')]"

text \<open>
  Every failure inside the \<open>try\<close> block (reading, parsing, the property access, writing) is
  caught and thrown again as one error that names the host file.
\<close>

definition verifyExtensionBundle ::
  "constants \<Rightarrow> createStepEnv \<Rightarrow> IFunctionWizardContext \<Rightarrow> fileSystem \<Rightarrow> error + fileSystem" where
  "verifyExtensionBundle K env wizardContext fs =
     (let hostFilePath = path_join (projectPath wizardContext) (hostFileName K);
          attempt =
            (case readJSON (JSON_parse env) fs hostFilePath of
               Inl e \<Rightarrow> Inl e
             | Inr hostJson \<Rightarrow>
                 (case getProperty hostJson ''extensionBundle'' of
                    Inl e \<Rightarrow> Inl e
                  | Inr extensionBundle \<Rightarrow>
                      if \<not> jsTruthy extensionBundle
                      then (case setProperty hostJson ''extensionBundle'' defaultExtensionBundle of
                              Inl e \<Rightarrow> Inl e
                            | Inr hostJson' \<Rightarrow>
                                writeFormattedJson (JSON_stringify env) fs hostFilePath hostJson')
                      else Inr fs))
      in case attempt of
           Inl e \<Rightarrow> Inl (Error (''Failed to parse '' @ hostFileName K @ '': '' @ errorMessage e))
         | Inr fs' \<Rightarrow> Inr fs')"

text \<open>
  The loop over the task and settings files of \<open>shouldUseExtensionBundle\<close>: \<open>Inr True\<close> when
  a file names the install command (the function then returns false), \<open>Inl\<close> when a file
  operation throws.
\<close>

fun mentionsExtInstall ::
  "constants \<Rightarrow> IFunctionWizardContext \<Rightarrow> fileSystem \<Rightarrow> string list \<Rightarrow> error + bool" where
  "mentionsExtInstall K wizardContext fs [] = Inr False"
| "mentionsExtInstall K wizardContext fs (file # filesToCheck) =
     (let filePath = path_join (path_join (workspacePath wizardContext) (vscodeFolderName K)) file
      in if pathExists fs filePath
         then (case readFile fs filePath of
                 Inl e \<Rightarrow> Inl e
               | Inr contents \<Rightarrow>
                   if includes_str contents (extInstallCommand K) then Inr True
                   else mentionsExtInstall K wizardContext fs filesToCheck)
         else mentionsExtInstall K wizardContext fs filesToCheck)"

definition shouldUseExtensionBundle ::
  "constants \<Rightarrow> IFunctionWizardContext \<Rightarrow> IFunctionTemplate \<Rightarrow> fileSystem \<Rightarrow> bool" where
  "shouldUseExtensionBundle K wizardContext template fs =
     (if runtime_w wizardContext = Some (v1 K) \<or>
         isHttpTrigger template \<or> isTimerTrigger template \<or>
         language wizardContext = Some (CSharp K) \<or> language wizardContext = Some (FSharp K)
      then False
      else (case mentionsExtInstall K wizardContext fs [tasksFileName K, settingsFileName K] of
              Inl e \<Rightarrow> True
            | Inr found \<Rightarrow> \<not> found))"

text \<open>
  \<open>execute\<close> returns the outcome (\<open>Inl\<close> for what it throws) with the state it leaves.
  \<open>setTimeout\<close> only registers the callback; the call of \<open>runPostFunctionCreateSteps\<close> at
  the end is outside the \<open>if\<close>.
\<close>

definition execute ::
  "constants \<Rightarrow> createStepEnv \<Rightarrow> IFunctionWizardContext \<Rightarrow> extState \<Rightarrow> (error + unit) \<times> extState" where
  "execute K env wizardContext st =
     (case functionTemplate wizardContext of
        None \<Rightarrow> (Inl (NullPropError ''functionTemplate''), st)
      | Some template \<Rightarrow>
          (let st = st\<lparr>properties :=
                  AList.update ''templateId'' (Some (id_t template))
                    (AList.update ''projectRuntime'' (runtime_w wizardContext)
                      (AList.update ''projectLanguage'' (language wizardContext) (properties st)))\<rparr>;
               st = st\<lparr>progress := progress st @ [Localized ''creatingFunction'' [name_t template]]\<rparr>
           in case executeCore env wizardContext (disk st) of
                (Inl e, fs) \<Rightarrow> (Inl e, st\<lparr>disk := fs\<rparr>)
              | (Inr newFilePath, fs) \<Rightarrow>
                  (let st = st\<lparr>disk := fs\<rparr>
                   in case (if shouldUseExtensionBundle K wizardContext template (disk st)
                            then verifyExtensionBundle K env wizardContext (disk st)
                            else Inr (disk st)) of
                        Inl e \<Rightarrow> (Inl e, st)
                      | Inr fs' \<Rightarrow>
                          (let st = st\<lparr>disk := fs'\<rparr>;
                               cachedFunc = \<lparr>projectPath_c = projectPath wizardContext,
                                  newFilePath_c = newFilePath,
                                  isHttpTrigger_c = isHttpTrigger template\<rparr>;
                               st = (if truthy (openBehavior wizardContext)
                                     then st\<lparr>globalState := (globalState st)(cacheKey \<mapsto> cachedFunc),
                                        timers := timers st @ [(5 * 1000, ClearCachedFunction)]\<rparr>
                                     else st)
                           in (Inr (), runPostFunctionCreateSteps env cachedFunc st)))))"

text \<open>\<open>shouldExecute\<close> of the create step.\<close>

definition shouldExecute :: "IFunctionWizardContext \<Rightarrow> bool" where
  "shouldExecute wizardContext = (functionTemplate wizardContext \<noteq> None)"

text \<open>
  \<open>createNewProject\<close> sets the open behaviour of the context before the wizard runs:
  \<open>'DontOpen'\<close> when the caller does not want the folder opened, the workspace setting (which
  may be unset) otherwise.
\<close>

definition createNewProject_openBehavior :: "bool \<Rightarrow> string option \<Rightarrow> string option" where
  "createNewProject_openBehavior openFolder projectOpenBehaviorSetting =
     (if \<not> openFolder then Some ''DontOpen'' else projectOpenBehaviorSetting)"

section \<open>FunctionListStep\<close>

datatype PromptStep =
  JavaPackageNameStep
| JavaFunctionNameStep
| DotnetFunctionNameStep
| DotnetNamespaceStep
| ScriptFunctionNameStep
| AzureWebJobsStoragePromptStep
| SettingStep IBindingSetting

datatype ExecuteStep =
  JavaFunctionCreateStep
| DotnetFunctionCreateStep
| TypeScriptFunctionCreateStep
| ScriptFunctionCreateStep
| AzureWebJobsStorageExecuteStep

record IWizardOptions =
  promptSteps_w :: "PromptStep list"
  executeSteps_w :: "ExecuteStep list"
  title_w :: message

text \<open>
  The step object: the constructor stores \<open>triggerSettings || {}\<close> (the entries in key order)
  and \<open>!!isProjectWizard\<close>.
\<close>

record FunctionListStep =
  triggerSettings :: "(string \<times> string option) list"
  isProjectWizard :: bool

text \<open>
  What \<open>getSubWizard\<close> calls outside itself: \<open>dotnetUtils.validateDotnetInstalled\<close> (\<open>None\<close>
  when it passes), the outcome of the factory of the Java create step, the steps that
  \<open>addBindingSettingSteps\<close> pushes onto the list it is given for the settings of the
  template, and \<open>getAzureWebJobsStorage\<close>, which reads the local settings of the project and
  can reject.
\<close>

record subWizardEnv =
  validateDotnetInstalled :: "error option"
  JavaFunctionCreateStep_rejects :: "error option"
  addBindingSettingSteps :: "IBindingSetting list \<Rightarrow> PromptStep list"
  getAzureWebJobsStorage :: "string \<Rightarrow> error + string option"

definition DotnetFunctionCreateStep_createStep :: "subWizardEnv \<Rightarrow> error + ExecuteStep" where
  "DotnetFunctionCreateStep_createStep env =
     (case validateDotnetInstalled env of
        Some e \<Rightarrow> Inl e
      | None \<Rightarrow> Inr DotnetFunctionCreateStep)"

text \<open>
  Modelled from the spec: the class \<open>JavaFunctionCreateStep\<close> is not among the files embedded
  here. Its factory is awaited like the one of the .NET step above: it rejects
  (\<open>JavaFunctionCreateStep_rejects\<close>) or gives the Java create step of the mapping.
\<close>

definition JavaFunctionCreateStep_createStep :: "subWizardEnv \<Rightarrow> error + ExecuteStep" where
  "JavaFunctionCreateStep_createStep env =
     (case JavaFunctionCreateStep_rejects env of
        Some e \<Rightarrow> Inl e
      | None \<Rightarrow> Inr JavaFunctionCreateStep)"

text \<open>
  \<open>getSubWizard\<close> returns its outcome with the context as it leaves it. The two \<open>switch\<close>
  statements compare the language with the enum members in the order of their \<open>case\<close> labels;
  between them the loop copies the trigger settings into the context under lower-cased keys.
\<close>

definition getSubWizard ::
  "constants \<Rightarrow> subWizardEnv \<Rightarrow> FunctionListStep \<Rightarrow> IFunctionWizardContext \<Rightarrow>
   (error + IWizardOptions option) \<times> IFunctionWizardContext" where
  "getSubWizard K env this wizardContext =
     (case functionTemplate wizardContext of
        None \<Rightarrow> (Inr None, wizardContext)
      | Some template \<Rightarrow>
          (let promptSteps =
                 (if language wizardContext = Some (Java K)
                  then [JavaPackageNameStep, JavaFunctionNameStep]
                  else if language wizardContext = Some (CSharp K) \<or>
                          language wizardContext = Some (FSharp K)
                  then [DotnetFunctionNameStep, DotnetNamespaceStep]
                  else [ScriptFunctionNameStep]);
               wizardContext =
                 fold (\<lambda>(key, v) wc. setProperty_wc wc (toLowerCase key) v)
                   (triggerSettings this) wizardContext;
               promptSteps = promptSteps @ addBindingSettingSteps env (userPromptedSettings template)
           in case (if language wizardContext = Some (Java K)
                    then JavaFunctionCreateStep_createStep env
                    else if language wizardContext = Some (CSharp K) \<or>
                            language wizardContext = Some (FSharp K)
                    then DotnetFunctionCreateStep_createStep env
                    else if language wizardContext = Some (TypeScript K)
                    then Inr TypeScriptFunctionCreateStep
                    else Inr ScriptFunctionCreateStep) of
                Inl e \<Rightarrow> (Inl e, wizardContext)
              | Inr createStep \<Rightarrow>
                  (case (if \<not> isHttpTrigger template
                         then (case getAzureWebJobsStorage env (projectPath wizardContext) of
                                 Inl e \<Rightarrow> Inl e
                               | Inr storage \<Rightarrow> Inr (\<not> truthy storage))
                         else Inr False) of
                     Inl e \<Rightarrow> (Inl e, wizardContext)
                   | Inr promptForStorage \<Rightarrow>
                       (Inr (Some
                          \<lparr>promptSteps_w =
                             (if promptForStorage then promptSteps @ [AzureWebJobsStoragePromptStep]
                              else promptSteps),
                           executeSteps_w =
                             (if promptForStorage then [createStep, AzureWebJobsStorageExecuteStep]
                              else [createStep]),
                           title_w = Localized ''createFunction'' [name_t template]\<rparr>),
                        wizardContext))))"

definition shouldPrompt :: "IFunctionWizardContext \<Rightarrow> bool" where
  "shouldPrompt wizardContext = (functionTemplate wizardContext = None)"

text \<open>
  The mapping of the specification, in its words: Java gets the package-name and function-name
  prompts with the Java create step, C# and F# get the function-name and namespace prompts with
  the .NET create step, TypeScript gets its own create step (with the script name prompt), and
  every other language gets the script name prompt and the script create step.
\<close>

definition spec_languageSteps :: "constants \<Rightarrow> ProjectLanguage option \<Rightarrow> PromptStep list \<times> ExecuteStep" where
  "spec_languageSteps K lang =
     (if lang = Some (Java K)
      then ([JavaPackageNameStep, JavaFunctionNameStep], JavaFunctionCreateStep)
      else if lang = Some (CSharp K) \<or> lang = Some (FSharp K)
      then ([DotnetFunctionNameStep, DotnetNamespaceStep], DotnetFunctionCreateStep)
      else if lang = Some (TypeScript K)
      then ([ScriptFunctionNameStep], TypeScriptFunctionCreateStep)
      else ([ScriptFunctionNameStep], ScriptFunctionCreateStep))"

section \<open>FunctionAppProvider.createChildImpl\<close>

datatype WizardStep =
  SiteNameStep
| SiteOSStep
| SiteHostingPlanStep
| SiteRuntimeStep
| ResourceGroupListStep
| StorageAccountListStep
| ResourceGroupCreateStep
| StorageAccountCreateStep
| SiteCreateStep ProjectRuntime "ProjectLanguage option"

record IAppServiceWizardContext =
  newSiteName :: "string option"
  newSiteOS :: "string option"
  newSiteRuntime :: "string option"
  useConsumptionPlan :: bool
  newResourceGroupName :: "string option"
  newStorageAccountName :: "string option"
  location :: "string option"
  site :: "string option"

text \<open>
  The settings, the wizard engine and the user interface, as \<open>createChildImpl\<close> meets them:
  the values of the settings it reads, the results of the library calls, and the answer of the
  user to the warning (\<open>showWarningMessage\<close> gives the item picked and rejects when the
  message is dismissed).
\<close>

record providerEnv =
  projectRuntimeSetting :: "string option"
  tryGetLocalRuntimeVersion :: "string option"
  projectLanguageSetting :: "string option"
  advancedCreationSetting :: "json option"
  getFunctionsWorkerRuntime :: "string option \<Rightarrow> string option"
  setLocation :: "IAppServiceWizardContext \<Rightarrow> string \<Rightarrow> error + IAppServiceWizardContext"
  wizard_prompt :: "WizardStep list \<Rightarrow> IAppServiceWizardContext \<Rightarrow> error + IAppServiceWizardContext"
  relatedNameTask :: "IAppServiceWizardContext \<Rightarrow> error + string option"
  wizard_execute :: "WizardStep list \<Rightarrow> IAppServiceWizardContext \<Rightarrow> error + IAppServiceWizardContext"
  showWarningMessage :: "message \<Rightarrow> message list \<Rightarrow> error + message"
  ProductionSlotTreeItem_create :: "string \<Rightarrow> error + string"

text \<open>
  What the function leaves behind: the telemetry properties of the action, the placeholder
  labels shown in the tree, the warnings shown with their buttons, and the global settings.
\<close>

record providerState =
  actionProperties :: "(string \<times> string option) list"
  creatingTreeItems :: "string list"
  warningsShown :: "(message \<times> message list) list"
  globalSettings :: "(string \<times> json) list"

definition advancedCreationKey :: string where
  "advancedCreationKey = ''advancedCreation''"

definition getDefaultRuntime ::
  "constants \<Rightarrow> providerEnv \<Rightarrow> providerState \<Rightarrow> ProjectRuntime \<times> providerState" where
  "getDefaultRuntime K env st =
     (let (chosen, source) =
            (case projectRuntimeSetting env of
               Some r \<Rightarrow>
                 if r \<noteq> [] then (r, ''VSCodeSetting'')
                 else (case tryGetLocalRuntimeVersion env of
                         Some l \<Rightarrow> if l \<noteq> [] then (l, ''LocalFuncCli'') else (v2 K, ''Backup'')
                       | None \<Rightarrow> (v2 K, ''Backup''))
             | None \<Rightarrow>
                 (case tryGetLocalRuntimeVersion env of
                    Some l \<Rightarrow> if l \<noteq> [] then (l, ''LocalFuncCli'') else (v2 K, ''Backup'')
                  | None \<Rightarrow> (v2 K, ''Backup'')))
      in (chosen,
          st\<lparr>actionProperties :=
               AList.update ''projectRuntime'' (Some chosen)
                 (AList.update ''runtimeSource'' (Some source) (actionProperties st))\<rparr>))"

text \<open>
  The \<open>try\<close> statement around \<open>wizard.execute\<close>. The promise of the warning is not awaited:
  the error is thrown again at once, and the state holds what the answer of the user brings
  about. \<open>result === btn\<close> compares with the one button of the message.
\<close>

definition createChildImpl_execute ::
  "constants \<Rightarrow> providerEnv \<Rightarrow> bool \<Rightarrow> WizardStep list \<Rightarrow> IAppServiceWizardContext \<Rightarrow>
   providerState \<Rightarrow> (error + IAppServiceWizardContext) \<times> providerState" where
  "createChildImpl_execute K env advancedCreation executeSteps wizardContext st =
     (case wizard_execute env executeSteps wizardContext of
        Inr wizardContext' \<Rightarrow> (Inr wizardContext', st)
      | Inl error \<Rightarrow>
          (let st =
                 (if \<not> isUserCancelledError error \<and> \<not> advancedCreation
                  then (let message =
                              Localized ''tryAdvancedCreate'' [extensionPrefix K, advancedCreationKey];
                            btn = Localized ''turnOn'' [];
                            st = st\<lparr>warningsShown := warningsShown st @ [(message, [btn])]\<rparr>
                        in case showWarningMessage env message [btn] of
                             Inl dismissed \<Rightarrow> st
                           | Inr result \<Rightarrow>
                               if result = btn
                               then st\<lparr>globalSettings :=
                                      AList.update advancedCreationKey (JBool True) (globalSettings st)\<rparr>
                               else st)
                  else st)
           in (Inl error, st)))"

text \<open>
  \<open>createChildImpl\<close>, from the default runtime to the tree item of the new site.
  \<open>WebsiteOS\<close> is the library's string enum with the values \<open>'linux'\<close> and \<open>'windows'\<close>.
\<close>

definition createChildImpl ::
  "constants \<Rightarrow> providerEnv \<Rightarrow> string option \<Rightarrow> providerState \<Rightarrow> (error + string) \<times> providerState" where
  "createChildImpl K env resourceGroup st0 =
     (let (runtime, st) = getDefaultRuntime K env st0;
          language = projectLanguageSetting env;
          wizardContext =
            \<lparr>newSiteName = None, newSiteOS = None, newSiteRuntime = None,
             useConsumptionPlan = False, newResourceGroupName = resourceGroup,
             newStorageAccountName = None, location = None, site = None\<rparr>;
          promptSteps = [SiteNameStep, SiteOSStep, SiteHostingPlanStep, SiteRuntimeStep];
          advancedCreation = jsTruthy (advancedCreationSetting env);
          st = st\<lparr>actionProperties :=
                 AList.update advancedCreationKey
                   (Some (if advancedCreation then ''true'' else ''false'')) (actionProperties st)\<rparr>
      in case (if \<not> advancedCreation
               then (case setLocation env
                            (wizardContext\<lparr>useConsumptionPlan := True,
                               newSiteOS :=
                                 Some (if language = Some (Python K) then ''linux'' else ''windows''),
                               newSiteRuntime := getFunctionsWorkerRuntime env language\<rparr>)
                            ''westus'' of
                       Inl e \<Rightarrow> Inl e
                     | Inr wc \<Rightarrow>
                         Inr (wc, promptSteps, [ResourceGroupCreateStep, StorageAccountCreateStep]))
               else Inr (wizardContext,
                         promptSteps @ [ResourceGroupListStep, StorageAccountListStep], [])) of
           Inl e \<Rightarrow> (Inl e, st)
         | Inr (wizardContext, promptSteps, executeSteps) \<Rightarrow>
             (let executeSteps = executeSteps @ [SiteCreateStep runtime language]
              in case wizard_prompt env promptSteps wizardContext of
                   Inl e \<Rightarrow> (Inl e, st)
                 | Inr wizardContext \<Rightarrow>
                     (case newSiteName wizardContext of
                        None \<Rightarrow> (Inl (NullPropError ''newSiteName''), st)
                      | Some siteName \<Rightarrow>
                          (let st = st\<lparr>creatingTreeItems := creatingTreeItems st @ [siteName],
                                  actionProperties :=
                                    AList.update ''runtime'' (newSiteRuntime wizardContext)
                                      (AList.update ''os'' (newSiteOS wizardContext)
                                        (actionProperties st))\<rparr>
                           in case (if \<not> advancedCreation
                                    then (case relatedNameTask env wizardContext of
                                            Inl e \<Rightarrow> Inl e
                                          | Inr newName \<Rightarrow>
                                              if \<not> truthy newName
                                              then Inl (Error ''noUniqueName'')
                                              else Inr (wizardContext
                                                     \<lparr>newResourceGroupName :=
                                                        (if truthy resourceGroup then resourceGroup
                                                         else newName),
                                                      newStorageAccountName := newName\<rparr>))
                                    else Inr wizardContext) of
                                Inl e \<Rightarrow> (Inl e, st)
                              | Inr wizardContext \<Rightarrow>
                                  (case createChildImpl_execute K env advancedCreation executeSteps
                                          wizardContext st of
                                     (Inl e, st) \<Rightarrow> (Inl e, st)
                                   | (Inr wizardContext, st) \<Rightarrow>
                                       (case site wizardContext of
                                          None \<Rightarrow> (Inl (NullPropError ''site''), st)
                                        | Some newSite \<Rightarrow>
                                            (case ProductionSlotTreeItem_create env newSite of
                                               Inl e \<Rightarrow> (Inl e, st)
                                             | Inr item \<Rightarrow> (Inr item, st))))))))"

section \<open>uploadAppSettings\<close>

text \<open>
  What \<open>uploadAppSettings\<close> calls outside itself. \<open>getLocalSettingsFile\<close> and the tree item
  picker may be cancelled. \<open>decryptLocalSettings\<close> and \<open>encryptLocalSettings\<close> rewrite the
  settings file in place and may fail; they give the error, if any, and the files as they leave
  them. The client lists the settings of the app (the \<open>properties\<close> may be missing),
  \<open>confirmOverwriteSettings\<close> merges the local values into them, asking the user, and the
  client stores the result.
\<close>

record uploadEnv =
  getLocalSettingsFile :: "string option \<Rightarrow> error + string"
  showTreeItemPicker :: "error + string"
  parseLocalSettings :: "string \<Rightarrow> json option"
  decryptLocalSettings :: "string \<Rightarrow> fileSystem \<Rightarrow> error option \<times> fileSystem"
  encryptLocalSettings :: "string \<Rightarrow> fileSystem \<Rightarrow> error option \<times> fileSystem"
  listApplicationSettings :: "string \<Rightarrow> error + (string \<times> string) list option"
  confirmOverwriteSettings ::
    "json \<Rightarrow> (string \<times> string) list \<Rightarrow> string \<Rightarrow> error + (string \<times> string) list"
  updateApplicationSettings :: "string \<Rightarrow> (string \<times> string) list \<Rightarrow> error option"

record uploadState =
  localDisk :: fileSystem
  outputChannel :: "message list"
  remoteSettings :: "string \<rightharpoonup> (string \<times> string) list"

text \<open>
  The reads at the start of the callback. When the file says it is encrypted, it is decrypted
  and read again; \<open>encryptLocalSettings\<close> is the \<open>finally\<close> clause of the second read, so it
  runs whether that read returns or throws, and an error of its own replaces the outcome of
  the read. An error of \<open>decryptLocalSettings\<close> leaves the callback before the \<open>try\<close>.
\<close>

definition readLocalSettings ::
  "uploadEnv \<Rightarrow> string \<Rightarrow> fileSystem \<Rightarrow> (error + json) \<times> fileSystem" where
  "readLocalSettings env localSettingsPath fs =
     (case readJSON (parseLocalSettings env) fs localSettingsPath of
        Inl e \<Rightarrow> (Inl e, fs)
      | Inr localSettings \<Rightarrow>
          (case getProperty localSettings ''IsEncrypted'' of
             Inl e \<Rightarrow> (Inl e, fs)
           | Inr isEncrypted \<Rightarrow>
               if jsTruthy isEncrypted
               then (case decryptLocalSettings env localSettingsPath fs of
                       (Some e, fs1) \<Rightarrow> (Inl e, fs1)
                     | (None, fs1) \<Rightarrow>
                         (let attempt = readJSON (parseLocalSettings env) fs1 localSettingsPath
                          in case encryptLocalSettings env localSettingsPath fs1 of
                               (Some e, fs2) \<Rightarrow> (Inl e, fs2)
                             | (None, fs2) \<Rightarrow> (attempt, fs2)))
               else (Inr localSettings, fs)))"

text \<open>
  The test the callback makes of a settings file: it is read as JSON and its \<open>IsEncrypted\<close>
  property is truthy. A file that cannot be read is not marked encrypted.
\<close>

definition markedEncrypted :: "uploadEnv \<Rightarrow> fileSystem \<Rightarrow> string \<Rightarrow> bool" where
  "markedEncrypted env fs localSettingsPath =
     (case readJSON (parseLocalSettings env) fs localSettingsPath of
        Inl e \<Rightarrow> False
      | Inr localSettings \<Rightarrow>
          (case getProperty localSettings ''IsEncrypted'' of
             Inl e \<Rightarrow> False
           | Inr isEncrypted \<Rightarrow> jsTruthy isEncrypted))"

definition uploadAppSettings ::
  "uploadEnv \<Rightarrow> string option \<Rightarrow> string option \<Rightarrow> uploadState \<Rightarrow> (error + unit) \<times> uploadState" where
  "uploadAppSettings env node workspacePath' st =
     (case getLocalSettingsFile env workspacePath' of
        Inl e \<Rightarrow> (Inl e, st)
      | Inr localSettingsPath \<Rightarrow>
          (case (case node of None \<Rightarrow> showTreeItemPicker env | Some n \<Rightarrow> Inr n) of
             Inl e \<Rightarrow> (Inl e, st)
           | Inr client \<Rightarrow>
               (let st = st\<lparr>outputChannel := outputChannel st @ [Localized ''uploadStart'' [client]]\<rparr>
                in case readLocalSettings env localSettingsPath (localDisk st) of
                     (Inl e, fs) \<Rightarrow> (Inl e, st\<lparr>localDisk := fs\<rparr>)
                   | (Inr localSettings, fs) \<Rightarrow>
                       (let st = st\<lparr>localDisk := fs\<rparr>
                        in case getProperty localSettings ''Values'' of
                             Inl e \<Rightarrow> (Inl e, st)
                           | Inr values \<Rightarrow>
                               (case values of
                                  None \<Rightarrow> (Inl (Error ''noSettings''), st)
                                | Some localValues \<Rightarrow>
                                    if jsTruthy values
                                    then (case listApplicationSettings env client of
                                            Inl e \<Rightarrow> (Inl e, st)
                                          | Inr remoteProperties \<Rightarrow>
                                              (case confirmOverwriteSettings env localValues
                                                      (case remoteProperties of
                                                         None \<Rightarrow> []
                                                       | Some ps \<Rightarrow> ps)
                                                      client of
                                                 Inl e \<Rightarrow> (Inl e, st)
                                               | Inr merged \<Rightarrow>
                                                   (case updateApplicationSettings env client merged of
                                                      Some e \<Rightarrow> (Inl e, st)
                                                    | None \<Rightarrow>
                                                        (Inr (),
                                                         st\<lparr>remoteSettings :=
                                                              (remoteSettings st)(client \<mapsto> merged)\<rparr>))))
                                    else (Inl (Error ''noSettings''), st))))))"

section \<open>Sample inputs\<close>

text \<open>
  The values of the constants as the extension ships them, two app-settings contexts and a feed,
  for the witnesses and the counterexamples below.
\<close>

definition sampleConstants :: constants where
  "sampleConstants =
     \<lparr>CSharp = ''C#'', CSharpScript = ''C#Script'', FSharp = ''F#'', Java = ''Java'',
      Python = ''Python'', TypeScript = ''TypeScript'', v1 = ''~1'', v2 = ''~2'',
      hostFileName = ''host.json'', tasksFileName = ''tasks.json'',
      settingsFileName = ''settings.json'', vscodeFolderName = ''.vscode'',
      extInstallCommand = ''func extensions install'', extensionPrefix = ''azureFunctions''\<rparr>"

definition sampleFeed :: "ProjectRuntime \<Rightarrow> error + (string \<times> string) list" where
  "sampleFeed projectRuntime =
     Inr [(''FUNCTIONS_EXTENSION_VERSION'', projectRuntime),
          (''WEBSITE_NODE_DEFAULT_VERSION'', ''10.14.1'')]"

definition windowsContext :: IAppSettingsContext where
  "windowsContext =
     \<lparr>storageConnectionString = ''DefaultEndpointsProtocol=https;AccountName=acct'',
      fileShareName = ''app-share'', os = ''windows'', runtime = Some ''node''\<rparr>"

definition linuxContext :: IAppSettingsContext where
  "linuxContext =
     \<lparr>storageConnectionString = ''DefaultEndpointsProtocol=https;AccountName=acct'',
      fileShareName = ''app-share'', os = ''linux'', runtime = Some ''python''\<rparr>"

definition mkTemplate :: "string \<Rightarrow> string \<Rightarrow> bool \<Rightarrow> IFunctionTemplate" where
  "mkTemplate i n http =
     \<lparr>id_t = i, name_t = n, isHttpTrigger = http, isTimerTrigger = False,
      userPromptedSettings = []\<rparr>"

text \<open>
  A project at \<open>/proj\<close> whose host file has no extension bundle, a queue trigger template, and
  a create step for JavaScript that writes \<open>index.js\<close>. The sample parser knows the host file
  before and after the bundle is added, and the sample printer prints the latter.
\<close>

definition sampleHost :: json where
  "sampleHost = JObj [(''version'', JStr ''2.0'')]"

definition samplePatchedHost :: json where
  "samplePatchedHost = JObj [(''version'', JStr ''2.0''), (''extensionBundle'', defaultExtensionBundle)]"

definition sampleParse :: "string \<Rightarrow> json option" where
  "sampleParse s =
     (if s = ''{ version: 2.0 }'' then Some sampleHost
      else if s = ''{ version: 2.0, extensionBundle: { id: ..., version: [1.*, 2.0.0) } }''
      then Some samplePatchedHost
      else None)"

definition sampleStringify :: "json \<Rightarrow> string" where
  "sampleStringify j =
     (if j = samplePatchedHost
      then ''{ version: 2.0, extensionBundle: { id: ..., version: [1.*, 2.0.0) } }''
      else ''null'')"

definition sampleCreateEnv :: createStepEnv where
  "sampleCreateEnv =
     \<lparr>executeCore =
        (\<lambda>wc fs. (Inr (path_join (projectPath wc) ''QueueTrigger1/index.js''),
           fs\<lparr>files := (files fs)
                  (path_join (projectPath wc) ''QueueTrigger1/index.js'' \<mapsto> File ''module.exports''),
              writes := writes fs @ [path_join (projectPath wc) ''QueueTrigger1/index.js'']\<rparr>)),
      JSON_parse = sampleParse,
      JSON_stringify = sampleStringify,
      getContainingWorkspace = (\<lambda>p. True),
      openTextDocument = (\<lambda>p. True)\<rparr>"

definition sampleFileSystem :: fileSystem where
  "sampleFileSystem = \<lparr>files = [''/proj/host.json'' \<mapsto> File ''{ version: 2.0 }''], writes = []\<rparr>"

definition queueTemplate :: IFunctionTemplate where
  "queueTemplate =
     \<lparr>id_t = ''QueueTrigger'', name_t = ''Azure Queue Storage trigger'', isHttpTrigger = False,
      isTimerTrigger = False, userPromptedSettings = [\<lparr>name_s = ''queueName''\<rparr>]\<rparr>"

definition sampleWizardContext :: "string option \<Rightarrow> IFunctionWizardContext" where
  "sampleWizardContext behavior =
     \<lparr>language = Some ''JavaScript'', runtime_w = Some ''~2'', projectPath = ''/proj'',
      workspacePath = ''/proj'', openBehavior = behavior, functionTemplate = Some queueTemplate,
      functionName = Some ''QueueTrigger1'', otherProperties = []\<rparr>"

definition sampleState :: extState where
  "sampleState =
     \<lparr>disk = sampleFileSystem, globalState = Map.empty, timers = [], properties = [],
      progress = [], postFunctionCreate = [], shownDocuments = []\<rparr>"

definition httpWizardContext :: "string option \<Rightarrow> IFunctionWizardContext" where
  "httpWizardContext behavior =
     (sampleWizardContext behavior)
       \<lparr>functionTemplate := Some (mkTemplate ''HttpTrigger'' ''HTTP trigger'' True)\<rparr>"

definition sampleCachedFunction :: "bool \<Rightarrow> ICachedFunction" where
  "sampleCachedFunction http =
     \<lparr>projectPath_c = ''/proj'', newFilePath_c = ''/proj/QueueTrigger1/index.js'',
      isHttpTrigger_c = http\<rparr>"

text \<open>
  Collaborators of \<open>getSubWizard\<close> that all succeed: the tools are installed, every setting
  of the template gets a prompt, and the project has a storage connection.
\<close>

definition sampleSubWizardEnv :: subWizardEnv where
  "sampleSubWizardEnv =
     \<lparr>validateDotnetInstalled = None, JavaFunctionCreateStep_rejects = None,
      addBindingSettingSteps = map SettingStep,
      getAzureWebJobsStorage = (\<lambda>p. Inr (Some ''UseDevelopmentStorage=true''))\<rparr>"

definition sampleListStep :: FunctionListStep where
  "sampleListStep = \<lparr>triggerSettings = [(''queueName'', Some ''orders'')], isProjectWizard = False\<rparr>"

definition languageListStep :: FunctionListStep where
  "languageListStep = \<lparr>triggerSettings = [(''Language'', Some ''Java'')], isProjectWizard = False\<rparr>"

definition javaWizardContext :: IFunctionWizardContext where
  "javaWizardContext = (sampleWizardContext None)\<lparr>language := Some ''Java''\<rparr>"

definition csharpWizardContext :: IFunctionWizardContext where
  "csharpWizardContext = (sampleWizardContext None)\<lparr>language := Some ''C#''\<rparr>"

text \<open>
  A run of \<open>createChildImpl\<close> in which the prompts succeed and the execute phase fails with
  \<open>executeError\<close>; the user accepts the warning or dismisses it.
\<close>

definition sampleProviderEnv :: "error \<Rightarrow> bool \<Rightarrow> json option \<Rightarrow> providerEnv" where
  "sampleProviderEnv executeError accept advanced =
     \<lparr>projectRuntimeSetting = Some ''~2'', tryGetLocalRuntimeVersion = None,
      projectLanguageSetting = Some ''JavaScript'', advancedCreationSetting = advanced,
      getFunctionsWorkerRuntime = (\<lambda>l. Some ''node''),
      setLocation = (\<lambda>wc l. Inr (wc\<lparr>location := Some l\<rparr>)),
      wizard_prompt = (\<lambda>steps wc. Inr (wc\<lparr>newSiteName := Some ''my-app''\<rparr>)),
      relatedNameTask = (\<lambda>wc. Inr (Some ''myapp1'')),
      wizard_execute = (\<lambda>steps wc. Inl executeError),
      showWarningMessage =
        (\<lambda>m items. case items of
                      [] \<Rightarrow> Inl UserCancelledError
                    | b # bs \<Rightarrow> if accept then Inr b else Inl UserCancelledError),
      ProductionSlotTreeItem_create = (\<lambda>s. Inr s)\<rparr>"

definition sampleProviderState :: providerState where
  "sampleProviderState =
     \<lparr>actionProperties = [], creatingTreeItems = [], warningsShown = [], globalSettings = []\<rparr>"

text \<open>
  A local settings file that is encrypted, with tools that decrypt and encrypt it in place.
  With \<open>readable = False\<close> the decrypted file does not parse, so the second read throws.
\<close>

definition sampleUploadEnv :: "bool \<Rightarrow> uploadEnv" where
  "sampleUploadEnv readable =
     \<lparr>getLocalSettingsFile = (\<lambda>w. Inr ''/proj/local.settings.json''),
      showTreeItemPicker = Inr ''my-app'',
      parseLocalSettings =
        (\<lambda>s. if s = ''encrypted''
              then Some (JObj [(''IsEncrypted'', JBool True),
                               (''Values'', JObj [(''AzureWebJobsStorage'', JStr ''CfDJ8'')])])
              else if s = ''decrypted''
              then Some (JObj [(''IsEncrypted'', JBool False),
                               (''Values'', JObj [(''AzureWebJobsStorage'', JStr ''UseDevelopmentStorage=true'')])])
              else None),
      decryptLocalSettings =
        (\<lambda>p fs. (None, fs\<lparr>files := (files fs)(p \<mapsto> File (if readable then ''decrypted'' else ''damaged'')),
                          writes := writes fs @ [p]\<rparr>)),
      encryptLocalSettings =
        (\<lambda>p fs. (None, fs\<lparr>files := (files fs)(p \<mapsto> File ''encrypted''),
                          writes := writes fs @ [p]\<rparr>)),
      listApplicationSettings = (\<lambda>client. Inr (Some [])),
      confirmOverwriteSettings = (\<lambda>localValues remote client. Inr remote),
      updateApplicationSettings = (\<lambda>client merged. None)\<rparr>"

definition sampleUploadState :: uploadState where
  "sampleUploadState =
     \<lparr>localDisk = \<lparr>files = [''/proj/local.settings.json'' \<mapsto> File ''encrypted''], writes = []\<rparr>,
      outputChannel = [], remoteSettings = Map.empty\<rparr>"

text \<open>
  The same tools when the command line that encrypts fails and leaves the file as it found it,
  and when the one that decrypts does.
\<close>

definition encryptFailsEnv :: uploadEnv where
  "encryptFailsEnv =
     (sampleUploadEnv True)
       \<lparr>encryptLocalSettings := (\<lambda>p fs. (Some (Error ''func settings encrypt failed''), fs))\<rparr>"

definition decryptFailsEnv :: uploadEnv where
  "decryptFailsEnv =
     (sampleUploadEnv True)
       \<lparr>decryptLocalSettings := (\<lambda>p fs. (Some (Error ''func settings decrypt failed''), fs))\<rparr>"

text \<open>
  A machine without the Java and .NET tools, and a project whose local settings cannot be read.
\<close>

definition noToolsEnv :: subWizardEnv where
  "noToolsEnv =
     sampleSubWizardEnv
       \<lparr>validateDotnetInstalled := Some (Error ''dotnet is not installed''),
        JavaFunctionCreateStep_rejects := Some (Error ''maven is not installed''),
        getAzureWebJobsStorage := (\<lambda>p. Inl (Error ''local.settings.json is not valid''))\<rparr>"

section \<open>Properties of createFunctionAppSettings\<close>

lemma createFunctionAppSettings_append:
  "getCli rt = Inr feed \<Longrightarrow>
   createFunctionAppSettings K getCli ctx rt lang =
     Inr (map (\<lambda>(key, v). \<lparr>name = key, val = v\<rparr>) feed @ pushedSettings K ctx rt lang)"
  by (simp add: createFunctionAppSettings_def pushedSettings_def Let_def split: option.splits)

lemma createFunctionAppSettings_reject:
  "getCli rt = Inl e \<Longrightarrow> createFunctionAppSettings K getCli ctx rt lang = Inl e"
  by (simp add: createFunctionAppSettings_def)

lemma names_of_feed: "map name (map (\<lambda>(key, v). \<lparr>name = key, val = v\<rparr>) feed) = map fst feed"
  by (induction feed) auto

lemma names_pushedSettings_eq:
  "map name (pushedSettings K ctx rt lang) =
     [''AzureWebJobsStorage''] @
     (if rt = v1 K then [''AzureWebJobsDashboard''] else []) @
     (if os ctx = ''windows''
      then [''WEBSITE_CONTENTAZUREFILECONNECTIONSTRING'', ''WEBSITE_CONTENTSHARE''] else []) @
     (if truthy (runtime ctx) then [''FUNCTIONS_WORKER_RUNTIME''] else []) @
     (if os ctx \<noteq> ''linux'' \<and> \<not> (lang = Some (CSharpScript K) \<and> rt = v1 K)
      then [''WEBSITE_RUN_FROM_PACKAGE''] else [])"
  by (simp add: pushedSettings_def truthy_def split: option.splits)

lemma distinct_pushedSettings: "distinct (map name (pushedSettings K ctx rt lang))"
  unfolding names_pushedSettings_eq by simp

lemma names_pushedSettings:
  "set (map name (pushedSettings K ctx rt lang)) \<subseteq>
     {''AzureWebJobsStorage'', ''AzureWebJobsDashboard'',
      ''WEBSITE_CONTENTAZUREFILECONNECTIONSTRING'', ''WEBSITE_CONTENTSHARE'',
      ''FUNCTIONS_WORKER_RUNTIME'', ''WEBSITE_RUN_FROM_PACKAGE''}"
  unfolding names_pushedSettings_eq by auto

lemma disjoint_sub: "A \<inter> S = {} \<Longrightarrow> B \<subseteq> S \<Longrightarrow> A \<inter> B = {}"
  by blast

text \<open>
  With a feed that answers, the function returns the entries of the feed followed by the pairs
  it pushes itself.
\<close>

lemma names_createFunctionAppSettings:
  assumes "getCli rt = Inr feed"
  shows "\<exists>out. createFunctionAppSettings K getCli ctx rt lang = Inr out \<and>
     map name out = map fst feed @ map name (pushedSettings K ctx rt lang) \<and>
     drop (length feed) out = pushedSettings K ctx rt lang \<and>
     set out =
       (\<lambda>(key, v). \<lparr>name = key, val = v\<rparr>) ` set feed \<union> set (pushedSettings K ctx rt lang)"
proof -
  let ?own = "pushedSettings K ctx rt lang"
  let ?pre = "map (\<lambda>(key, v). \<lparr>name = key, val = v\<rparr>) feed"
  have a: "createFunctionAppSettings K getCli ctx rt lang = Inr (?pre @ ?own)"
    using assms by (rule createFunctionAppSettings_append [where getCli = getCli and rt = rt])
  have b: "map name (?pre @ ?own) = map fst feed @ map name ?own"
    by (simp only: map_append names_of_feed)
  have c: "drop (length feed) (?pre @ ?own) = ?own"
    by simp
  have d: "set (?pre @ ?own) = (\<lambda>(key, v). \<lparr>name = key, val = v\<rparr>) ` set feed \<union> set ?own"
    by simp
  show ?thesis
    by (rule exI [of _ "?pre @ ?own"]) (intro conjI a b c d)
qed

text \<open>
  C4, as the code has it. The claim promises distinct names for every base map of the feed, but
  the entries of the feed are copied as they come and the fixed names are pushed after them
  with no look at what is there. The names of the result are distinct when the keys of the
  feed (distinct among themselves, as the keys of an object are) avoid the six names the
  function pushes itself.
\<close>

theorem createFunctionAppSettings_distinct_names:
  assumes "getCli rt = Inr feed" "distinct (map fst feed)"
    "fst ` set feed \<inter> {''AzureWebJobsStorage'', ''AzureWebJobsDashboard'',
        ''WEBSITE_CONTENTAZUREFILECONNECTIONSTRING'', ''WEBSITE_CONTENTSHARE'',
        ''FUNCTIONS_WORKER_RUNTIME'', ''WEBSITE_RUN_FROM_PACKAGE''} = {}"
  shows "\<exists>out. createFunctionAppSettings K getCli ctx rt lang = Inr out \<and> distinct (map name out)"
proof -
  let ?own = "pushedSettings K ctx rt lang"
  obtain out where out: "createFunctionAppSettings K getCli ctx rt lang = Inr out"
    and names: "map name out = map fst feed @ map name ?own"
    using names_createFunctionAppSettings [where getCli = getCli and rt = rt, OF assms(1)] by blast
  have "set (map fst feed) \<inter> set (map name ?own) = {}"
    using disjoint_sub [OF assms(3) names_pushedSettings [of K ctx rt lang]] by (simp only: set_map)
  then have "distinct (map fst feed @ map name ?own)"
    using assms(2) distinct_pushedSettings [of K ctx rt lang] by (simp only: distinct_append)
  then have "distinct (map name out)"
    using names by (simp only:)
  with out show ?thesis by (intro exI conjI)
qed

text \<open>The theorem at the sample feed, on Windows with runtime \<open>~2\<close>.\<close>

theorem createFunctionAppSettings_distinct_names_witness:
  "distinct (map fst [(''FUNCTIONS_EXTENSION_VERSION'', ''~2''),
                      (''WEBSITE_NODE_DEFAULT_VERSION'', ''10.14.1'')]) \<and>
   (\<exists>out. createFunctionAppSettings sampleConstants sampleFeed windowsContext ''~2''
             (Some ''JavaScript'') = Inr out \<and>
          distinct (map name out))"
proof -
  have f: "sampleFeed ''~2'' =
      Inr [(''FUNCTIONS_EXTENSION_VERSION'', ''~2''), (''WEBSITE_NODE_DEFAULT_VERSION'', ''10.14.1'')]"
    by (simp add: sampleFeed_def)
  have d: "distinct (map fst [(''FUNCTIONS_EXTENSION_VERSION'', ''~2''),
                              (''WEBSITE_NODE_DEFAULT_VERSION'', ''10.14.1'')])"
    by simp
  have i: "fst ` set [(''FUNCTIONS_EXTENSION_VERSION'', ''~2''),
                      (''WEBSITE_NODE_DEFAULT_VERSION'', ''10.14.1'')] \<inter>
       {''AzureWebJobsStorage'', ''AzureWebJobsDashboard'',
        ''WEBSITE_CONTENTAZUREFILECONNECTIONSTRING'', ''WEBSITE_CONTENTSHARE'',
        ''FUNCTIONS_WORKER_RUNTIME'', ''WEBSITE_RUN_FROM_PACKAGE''} = {}"
    by simp
  show ?thesis
    using d createFunctionAppSettings_distinct_names
      [where getCli = sampleFeed and rt = "''~2''" and K = sampleConstants and ctx = windowsContext
         and lang = "Some ''JavaScript''", OF f d i]
    by blast
qed

text \<open>
  A feed whose map already holds \<open>AzureWebJobsStorage\<close>: the name stands twice in the result.
\<close>

theorem createFunctionAppSettings_distinct_names_counterexample:
  "createFunctionAppSettings sampleConstants
     (\<lambda>r. Inr [(''AzureWebJobsStorage'', ''UseDevelopmentStorage=true'')])
     linuxContext ''~2'' (Some ''Python'') =
   Inr [\<lparr>name = ''AzureWebJobsStorage'', val = ''UseDevelopmentStorage=true''\<rparr>,
        \<lparr>name = ''AzureWebJobsStorage'',
           val = ''DefaultEndpointsProtocol=https;AccountName=acct''\<rparr>,
        \<lparr>name = ''FUNCTIONS_WORKER_RUNTIME'', val = ''python''\<rparr>] \<and>
   \<not> distinct [''AzureWebJobsStorage'', ''AzureWebJobsStorage'', ''FUNCTIONS_WORKER_RUNTIME'']"
  by (simp add: createFunctionAppSettings_def sampleConstants_def linuxContext_def)

lemma in_names_pushedSettings:
  "(''WEBSITE_CONTENTAZUREFILECONNECTIONSTRING'' \<in> set (map name (pushedSettings K ctx rt lang))) =
     (os ctx = ''windows'')"
  "(''WEBSITE_CONTENTSHARE'' \<in> set (map name (pushedSettings K ctx rt lang))) = (os ctx = ''windows'')"
  "(''AzureWebJobsDashboard'' \<in> set (map name (pushedSettings K ctx rt lang))) = (rt = v1 K)"
  "(''WEBSITE_RUN_FROM_PACKAGE'' \<in> set (map name (pushedSettings K ctx rt lang))) =
     (os ctx \<noteq> ''linux'' \<and> \<not> (lang = Some (CSharpScript K) \<and> rt = v1 K))"
  unfolding names_pushedSettings_eq by auto

lemma in_pushedSettings:
  "(\<lparr>name = ''AzureWebJobsDashboard'', val = storageConnectionString ctx\<rparr>
       \<in> set (pushedSettings K ctx rt lang)) = (rt = v1 K)"
  "(\<lparr>name = ''WEBSITE_RUN_FROM_PACKAGE'', val = ''1''\<rparr> \<in> set (pushedSettings K ctx rt lang)) =
     (os ctx \<noteq> ''linux'' \<and> \<not> (lang = Some (CSharpScript K) \<and> rt = v1 K))"
  by (auto simp: pushedSettings_def split: option.splits)

lemma not_in_feed_entries:
  "k \<notin> fst ` set feed \<Longrightarrow> \<lparr>name = k, val = w\<rparr> \<notin> (\<lambda>(key, v). \<lparr>name = key, val = v\<rparr>) ` set feed"
  by force

text \<open>
  C5, as the code has it. The entries of the feed pass into the result whatever the OS and the
  runtime are, so the claim holds for the base maps that do not hold the three names
  themselves: then the two file-share settings of Windows are in the result exactly when the OS
  is \<open>windows\<close>, and \<open>AzureWebJobsDashboard\<close>, with the storage connection string as its
  value, exactly when the runtime is \<open>v1\<close>.
\<close>

theorem createFunctionAppSettings_windows_and_dashboard:
  assumes "getCli rt = Inr feed"
    and "''WEBSITE_CONTENTAZUREFILECONNECTIONSTRING'' \<notin> fst ` set feed"
    and "''WEBSITE_CONTENTSHARE'' \<notin> fst ` set feed"
    and "''AzureWebJobsDashboard'' \<notin> fst ` set feed"
  shows "\<exists>out. createFunctionAppSettings K getCli ctx rt lang = Inr out \<and>
     (''WEBSITE_CONTENTAZUREFILECONNECTIONSTRING'' \<in> set (map name out) \<longleftrightarrow> os ctx = ''windows'') \<and>
     (''WEBSITE_CONTENTSHARE'' \<in> set (map name out) \<longleftrightarrow> os ctx = ''windows'') \<and>
     (''AzureWebJobsDashboard'' \<in> set (map name out) \<longleftrightarrow> rt = v1 K) \<and>
     (\<lparr>name = ''AzureWebJobsDashboard'', val = storageConnectionString ctx\<rparr> \<in> set out
        \<longleftrightarrow> rt = v1 K)"
proof -
  let ?own = "pushedSettings K ctx rt lang"
  obtain out where out: "createFunctionAppSettings K getCli ctx rt lang = Inr out"
    and names: "map name out = map fst feed @ map name ?own"
    and elems: "set out = (\<lambda>(key, v). \<lparr>name = key, val = v\<rparr>) ` set feed \<union> set ?own"
    using names_createFunctionAppSettings [where getCli = getCli and rt = rt, OF assms(1)] by blast
  have n: "set (map name out) = fst ` set feed \<union> set (map name ?own)"
    unfolding names by simp
  have 1: "''WEBSITE_CONTENTAZUREFILECONNECTIONSTRING'' \<in> set (map name out) \<longleftrightarrow> os ctx = ''windows''"
    unfolding n using assms(2) by (simp only: Un_iff in_names_pushedSettings) simp
  have 2: "''WEBSITE_CONTENTSHARE'' \<in> set (map name out) \<longleftrightarrow> os ctx = ''windows''"
    unfolding n using assms(3) by (simp only: Un_iff in_names_pushedSettings) simp
  have 3: "''AzureWebJobsDashboard'' \<in> set (map name out) \<longleftrightarrow> rt = v1 K"
    unfolding n using assms(4) by (simp only: Un_iff in_names_pushedSettings) simp
  have "\<lparr>name = ''AzureWebJobsDashboard'', val = storageConnectionString ctx\<rparr>
      \<notin> (\<lambda>(key, v). \<lparr>name = key, val = v\<rparr>) ` set feed"
    using assms(4) by (rule not_in_feed_entries)
  then have 4: "\<lparr>name = ''AzureWebJobsDashboard'', val = storageConnectionString ctx\<rparr> \<in> set out
      \<longleftrightarrow> rt = v1 K"
    unfolding elems by (simp only: Un_iff in_pushedSettings) simp
  show ?thesis
    by (rule exI [of _ out]) (intro conjI out 1 2 3 4)
qed

text \<open>
  C6. The pairs the function adds are those after the entries of the feed. Among them stands
  \<open>WEBSITE_RUN_FROM_PACKAGE\<close> with the value \<open>'1'\<close> exactly when the OS is not \<open>linux\<close> and
  the project is not C# script on runtime \<open>v1\<close>; so for an OS other than \<open>linux\<close> the
  setting is left out for that one combination only.
\<close>

theorem createFunctionAppSettings_run_from_package:
  assumes "getCli rt = Inr feed"
  shows "\<exists>out. createFunctionAppSettings K getCli ctx rt lang = Inr out \<and>
     (\<lparr>name = ''WEBSITE_RUN_FROM_PACKAGE'', val = ''1''\<rparr> \<in> set (drop (length feed) out) \<longleftrightarrow>
        os ctx \<noteq> ''linux'' \<and> \<not> (lang = Some (CSharpScript K) \<and> rt = v1 K)) \<and>
     (''WEBSITE_RUN_FROM_PACKAGE'' \<in> set (map name (drop (length feed) out)) \<longleftrightarrow>
        os ctx \<noteq> ''linux'' \<and> \<not> (lang = Some (CSharpScript K) \<and> rt = v1 K)) \<and>
     (os ctx \<noteq> ''linux'' \<longrightarrow>
        (''WEBSITE_RUN_FROM_PACKAGE'' \<notin> set (map name (drop (length feed) out)) \<longleftrightarrow>
           lang = Some (CSharpScript K) \<and> rt = v1 K))"
proof -
  let ?own = "pushedSettings K ctx rt lang"
  obtain out where out: "createFunctionAppSettings K getCli ctx rt lang = Inr out"
    and own: "drop (length feed) out = ?own"
    using names_createFunctionAppSettings [where getCli = getCli and rt = rt, OF assms(1)] by blast
  have 1: "\<lparr>name = ''WEBSITE_RUN_FROM_PACKAGE'', val = ''1''\<rparr> \<in> set (drop (length feed) out) \<longleftrightarrow>
        os ctx \<noteq> ''linux'' \<and> \<not> (lang = Some (CSharpScript K) \<and> rt = v1 K)"
    unfolding own by (rule in_pushedSettings)
  have 2: "''WEBSITE_RUN_FROM_PACKAGE'' \<in> set (map name (drop (length feed) out)) \<longleftrightarrow>
        os ctx \<noteq> ''linux'' \<and> \<not> (lang = Some (CSharpScript K) \<and> rt = v1 K)"
    unfolding own by (rule in_names_pushedSettings)
  have 3: "os ctx \<noteq> ''linux'' \<longrightarrow>
        (''WEBSITE_RUN_FROM_PACKAGE'' \<notin> set (map name (drop (length feed) out)) \<longleftrightarrow>
           lang = Some (CSharpScript K) \<and> rt = v1 K)"
    using 2 by blast
  show ?thesis
    by (rule exI [of _ out]) (intro conjI out 1 2 3)
qed

text \<open>The sample feed holds none of the names the function pushes.\<close>

lemma sampleFeed_keys:
  "sampleFeed rt = Inr [(''FUNCTIONS_EXTENSION_VERSION'', rt), (''WEBSITE_NODE_DEFAULT_VERSION'', ''10.14.1'')]"
  "''WEBSITE_CONTENTAZUREFILECONNECTIONSTRING'' \<notin>
     fst ` set [(''FUNCTIONS_EXTENSION_VERSION'', rt), (''WEBSITE_NODE_DEFAULT_VERSION'', ''10.14.1'')]"
  "''WEBSITE_CONTENTSHARE'' \<notin>
     fst ` set [(''FUNCTIONS_EXTENSION_VERSION'', rt), (''WEBSITE_NODE_DEFAULT_VERSION'', ''10.14.1'')]"
  "''AzureWebJobsDashboard'' \<notin>
     fst ` set [(''FUNCTIONS_EXTENSION_VERSION'', rt), (''WEBSITE_NODE_DEFAULT_VERSION'', ''10.14.1'')]"
  by (simp_all add: sampleFeed_def)

text \<open>
  The theorem of C5 at two inputs: C# on Windows with runtime \<open>~1\<close>, and Python on Linux with
  runtime \<open>~2\<close>.
\<close>

theorem createFunctionAppSettings_windows_and_dashboard_witness:
  "(\<exists>out. createFunctionAppSettings sampleConstants sampleFeed windowsContext ''~1'' (Some ''C#'') =
       Inr out \<and>
     ''WEBSITE_CONTENTAZUREFILECONNECTIONSTRING'' \<in> set (map name out) \<and>
     ''WEBSITE_CONTENTSHARE'' \<in> set (map name out) \<and>
     \<lparr>name = ''AzureWebJobsDashboard'',
        val = ''DefaultEndpointsProtocol=https;AccountName=acct''\<rparr> \<in> set out) \<and>
   (\<exists>out. createFunctionAppSettings sampleConstants sampleFeed linuxContext ''~2'' (Some ''Python'') =
       Inr out \<and>
     ''WEBSITE_CONTENTAZUREFILECONNECTIONSTRING'' \<notin> set (map name out) \<and>
     ''WEBSITE_CONTENTSHARE'' \<notin> set (map name out) \<and>
     ''AzureWebJobsDashboard'' \<notin> set (map name out))"
proof -
  have a: "os windowsContext = ''windows''" "v1 sampleConstants = ''~1''"
    "storageConnectionString windowsContext = ''DefaultEndpointsProtocol=https;AccountName=acct''"
    by (simp_all add: windowsContext_def sampleConstants_def)
  have b: "os linuxContext \<noteq> ''windows''" "v1 sampleConstants \<noteq> ''~2''"
    by (simp_all add: linuxContext_def sampleConstants_def)
  show ?thesis
    using createFunctionAppSettings_windows_and_dashboard
        [where getCli = sampleFeed and rt = "''~1''" and K = sampleConstants and ctx = windowsContext
           and lang = "Some ''C#''", OF sampleFeed_keys]
      createFunctionAppSettings_windows_and_dashboard
        [where getCli = sampleFeed and rt = "''~2''" and K = sampleConstants and ctx = linuxContext
           and lang = "Some ''Python''", OF sampleFeed_keys]
    by (auto simp: a b)
qed

text \<open>
  A feed whose map holds \<open>WEBSITE_CONTENTSHARE\<close>: the setting is in the result on Linux.
\<close>

theorem createFunctionAppSettings_windows_and_dashboard_counterexample:
  "createFunctionAppSettings sampleConstants (\<lambda>r. Inr [(''WEBSITE_CONTENTSHARE'', ''legacy-share'')])
     linuxContext ''~2'' (Some ''Python'') =
   Inr [\<lparr>name = ''WEBSITE_CONTENTSHARE'', val = ''legacy-share''\<rparr>,
        \<lparr>name = ''AzureWebJobsStorage'',
           val = ''DefaultEndpointsProtocol=https;AccountName=acct''\<rparr>,
        \<lparr>name = ''FUNCTIONS_WORKER_RUNTIME'', val = ''python''\<rparr>] \<and>
   os linuxContext \<noteq> ''windows''"
  by (simp add: createFunctionAppSettings_def sampleConstants_def linuxContext_def)

text \<open>
  The theorem of C6 at two inputs on Windows: JavaScript on runtime \<open>~2\<close> gets the setting,
  C# script on runtime \<open>~1\<close> does not.
\<close>

theorem createFunctionAppSettings_run_from_package_witness:
  "(\<exists>out. createFunctionAppSettings sampleConstants sampleFeed windowsContext ''~2''
             (Some ''JavaScript'') = Inr out \<and>
      \<lparr>name = ''WEBSITE_RUN_FROM_PACKAGE'', val = ''1''\<rparr> \<in> set (drop 2 out)) \<and>
   (\<exists>out. createFunctionAppSettings sampleConstants sampleFeed windowsContext ''~1''
             (Some ''C#Script'') = Inr out \<and>
      ''WEBSITE_RUN_FROM_PACKAGE'' \<notin> set (map name (drop 2 out)))"
proof -
  have a: "os windowsContext \<noteq> ''linux''" "v1 sampleConstants = ''~1''"
    "CSharpScript sampleConstants = ''C#Script''"
    by (simp_all add: windowsContext_def sampleConstants_def)
  obtain out where o: "createFunctionAppSettings sampleConstants sampleFeed windowsContext ''~2''
        (Some ''JavaScript'') = Inr out"
    and "\<lparr>name = ''WEBSITE_RUN_FROM_PACKAGE'', val = ''1''\<rparr>
        \<in> set (drop (length [(''FUNCTIONS_EXTENSION_VERSION'', ''~2''),
                                (''WEBSITE_NODE_DEFAULT_VERSION'', ''10.14.1'')]) out) \<longleftrightarrow>
      os windowsContext \<noteq> ''linux'' \<and>
      \<not> (Some ''JavaScript'' = Some (CSharpScript sampleConstants) \<and> ''~2'' = v1 sampleConstants)"
    using createFunctionAppSettings_run_from_package
        [where getCli = sampleFeed and rt = "''~2''" and K = sampleConstants and ctx = windowsContext
           and lang = "Some ''JavaScript''", OF sampleFeed_keys(1)]
    by blast
  then have 1: "\<lparr>name = ''WEBSITE_RUN_FROM_PACKAGE'', val = ''1''\<rparr> \<in> set (drop 2 out)"
    by (simp add: a numeral_2_eq_2)
  obtain out' where o': "createFunctionAppSettings sampleConstants sampleFeed windowsContext ''~1''
        (Some ''C#Script'') = Inr out'"
    and "''WEBSITE_RUN_FROM_PACKAGE''
        \<in> set (map name (drop (length [(''FUNCTIONS_EXTENSION_VERSION'', ''~1''),
                                (''WEBSITE_NODE_DEFAULT_VERSION'', ''10.14.1'')]) out')) \<longleftrightarrow>
      os windowsContext \<noteq> ''linux'' \<and>
      \<not> (Some ''C#Script'' = Some (CSharpScript sampleConstants) \<and> ''~1'' = v1 sampleConstants)"
    using createFunctionAppSettings_run_from_package
        [where getCli = sampleFeed and rt = "''~1''" and K = sampleConstants and ctx = windowsContext
           and lang = "Some ''C#Script''", OF sampleFeed_keys(1)]
    by blast
  then have 2: "''WEBSITE_RUN_FROM_PACKAGE'' \<notin> set (map name (drop 2 out'))"
    by (simp add: a numeral_2_eq_2)
  from o 1 o' 2 show ?thesis by blast
qed

section \<open>Properties of sortTemplates\<close>

lemma length_toLowerCase: "length (toLowerCase s) = length s"
  by (simp add: toLowerCase_def)

text \<open>
  What the regular expression accepts: the identifier holds the word \<open>httptrigger\<close> in any
  case, at its end or followed by a character that is not a letter.
\<close>

lemma matchesAt_iff:
  "matchesAt s \<longleftrightarrow>
     (\<exists>w rest. s = w @ rest \<and> toLowerCase w = ''httptrigger'' \<and>
        (case rest of [] \<Rightarrow> True | c # cs \<Rightarrow> \<not> isLetter c))"
proof
  assume m: "matchesAt s"
  then have "s = take 11 s @ drop 11 s" "toLowerCase (take 11 s) = ''httptrigger''"
    "case drop 11 s of [] \<Rightarrow> True | c # cs \<Rightarrow> \<not> isLetter c"
    by (simp_all add: matchesAt_def)
  then show "\<exists>w rest. s = w @ rest \<and> toLowerCase w = ''httptrigger'' \<and>
        (case rest of [] \<Rightarrow> True | c # cs \<Rightarrow> \<not> isLetter c)"
    by blast
next
  assume "\<exists>w rest. s = w @ rest \<and> toLowerCase w = ''httptrigger'' \<and>
        (case rest of [] \<Rightarrow> True | c # cs \<Rightarrow> \<not> isLetter c)"
  then obtain w rest where s: "s = w @ rest" and w: "toLowerCase w = ''httptrigger''"
    and r: "case rest of [] \<Rightarrow> True | c # cs \<Rightarrow> \<not> isLetter c"
    by blast
  have "length w = length ''httptrigger''"
    using w length_toLowerCase [of w] by simp
  then have l: "length w = 11" by simp
  have "take 11 s = w" "drop 11 s = rest"
    using s l by simp_all
  then show "matchesAt s"
    using w r by (simp add: matchesAt_def)
qed

lemma regExp_test_suffix:
  "regExp_test s \<longleftrightarrow> (\<exists>pre suf. s = pre @ suf \<and> matchesAt suf)"
proof (induction s)
  case Nil
  then show ?case by simp
next
  case (Cons c cs)
  show ?case
  proof
    assume "regExp_test (c # cs)"
    then consider "matchesAt (c # cs)" | "regExp_test cs" by auto
    then show "\<exists>pre suf. c # cs = pre @ suf \<and> matchesAt suf"
    proof cases
      case 1
      then have "c # cs = [] @ (c # cs) \<and> matchesAt (c # cs)" by simp
      then show ?thesis by blast
    next
      case 2
      then obtain pre suf where "cs = pre @ suf" "matchesAt suf"
        using Cons.IH by blast
      then have "c # cs = (c # pre) @ suf \<and> matchesAt suf" by simp
      then show ?thesis by blast
    qed
  next
    assume "\<exists>pre suf. c # cs = pre @ suf \<and> matchesAt suf"
    then obtain pre suf where p: "c # cs = pre @ suf" and m: "matchesAt suf" by blast
    show "regExp_test (c # cs)"
    proof (cases pre)
      case Nil
      then have "matchesAt (c # cs)" using p m by simp
      then show ?thesis by simp
    next
      case (Cons d pre')
      then have "cs = pre' @ suf" using p by simp
      then have "regExp_test cs" using Cons.IH m by blast
      then show ?thesis by simp
    qed
  qed
qed

lemma regExp_test_iff:
  "regExp_test s \<longleftrightarrow>
     (\<exists>pre w rest. s = pre @ w @ rest \<and> toLowerCase w = ''httptrigger'' \<and>
        (case rest of [] \<Rightarrow> True | c # cs \<Rightarrow> \<not> isLetter c))"
  unfolding regExp_test_suffix matchesAt_iff by blast

text \<open>
  C7, as the code has it. Under the verified filter the first template ranks first (\<open>-1\<close>) as
  soon as its identifier matches the pattern, whether or not the second matches too; when only
  the second matches, the second ranks first (\<open>1\<close>); when neither matches, and under every
  other filter, the result is \<open>localeCompare\<close> of the display names. The first conjunct says
  which identifiers match.
\<close>

theorem sortTemplates_order:
  "(regExp_test s \<longleftrightarrow>
      (\<exists>pre w rest. s = pre @ w @ rest \<and> toLowerCase w = ''httptrigger'' \<and>
         (case rest of [] \<Rightarrow> True | c # cs \<Rightarrow> \<not> isLetter c))) \<and>
   (regExp_test (id_t a) \<longrightarrow> sortTemplates localeCompare a b Verified = - 1) \<and>
   (\<not> regExp_test (id_t a) \<and> regExp_test (id_t b) \<longrightarrow>
      sortTemplates localeCompare a b Verified = 1) \<and>
   (\<not> regExp_test (id_t a) \<and> \<not> regExp_test (id_t b) \<longrightarrow>
      sortTemplates localeCompare a b Verified = localeCompare (name_t a) (name_t b)) \<and>
   (templateFilter \<noteq> Verified \<longrightarrow>
      sortTemplates localeCompare a b templateFilter = localeCompare (name_t a) (name_t b))"
  using regExp_test_iff [of s] by (simp add: sortTemplates_def)

text \<open>The pattern on sample identifiers.\<close>

lemma regExp_test_samples:
  "regExp_test ''HttpTrigger''" "regExp_test ''HttpTrigger-CSharp''"
  "\<not> regExp_test ''TimerTrigger''" "\<not> regExp_test ''BlobTrigger''"
  "\<not> regExp_test ''HttpTriggerCSharp''"
  by code_simp+

text \<open>
  The theorem at sample templates: the HTTP trigger against the timer trigger in both orders,
  two other triggers under the verified filter, and a pair under the filter \<open>Core\<close>.
\<close>

theorem sortTemplates_order_witness:
  "sortTemplates caseInsensitiveCompare (mkTemplate ''HttpTrigger'' ''HTTP trigger'' True)
     (mkTemplate ''TimerTrigger'' ''Timer trigger'' False) Verified = - 1 \<and>
   sortTemplates caseInsensitiveCompare (mkTemplate ''TimerTrigger'' ''Timer trigger'' False)
     (mkTemplate ''HttpTrigger'' ''HTTP trigger'' True) Verified = 1 \<and>
   sortTemplates caseInsensitiveCompare (mkTemplate ''TimerTrigger'' ''Timer trigger'' False)
     (mkTemplate ''BlobTrigger'' ''Blob trigger'' False) Verified =
     caseInsensitiveCompare ''Timer trigger'' ''Blob trigger'' \<and>
   sortTemplates caseInsensitiveCompare (mkTemplate ''HttpTrigger'' ''HTTP trigger'' True)
     (mkTemplate ''BlobTrigger'' ''Blob trigger'' False) Core =
     caseInsensitiveCompare ''HTTP trigger'' ''Blob trigger''"
proof -
  have ids: "id_t (mkTemplate i n h) = i" "name_t (mkTemplate i n h) = n" for i n h
    by (simp_all add: mkTemplate_def)
  have f: "Core \<noteq> Verified" by simp
  show ?thesis
    using sortTemplates_order
        [of "''HttpTrigger''" "mkTemplate ''HttpTrigger'' ''HTTP trigger'' True" caseInsensitiveCompare
          "mkTemplate ''TimerTrigger'' ''Timer trigger'' False" Core]
      sortTemplates_order
        [of "''HttpTrigger''" "mkTemplate ''TimerTrigger'' ''Timer trigger'' False" caseInsensitiveCompare
          "mkTemplate ''HttpTrigger'' ''HTTP trigger'' True" Core]
      sortTemplates_order
        [of "''HttpTrigger''" "mkTemplate ''TimerTrigger'' ''Timer trigger'' False" caseInsensitiveCompare
          "mkTemplate ''BlobTrigger'' ''Blob trigger'' False" Core]
      sortTemplates_order
        [of "''HttpTrigger''" "mkTemplate ''HttpTrigger'' ''HTTP trigger'' True" caseInsensitiveCompare
          "mkTemplate ''BlobTrigger'' ''Blob trigger'' False" Core]
      regExp_test_samples f
    unfolding ids by blast
qed

text \<open>
  The example of the claim fails: in \<open>HttpTriggerCSharp\<close> a letter follows the word, so
  the identifier does not match, and against \<open>TimerTrigger\<close> the names decide; with the names
  \<open>Web request\<close> and \<open>Timer\<close> the template ranks second. And two templates that both match
  are not compared by name: the first ranks first although its name comes later.
\<close>

theorem sortTemplates_order_counterexample:
  "\<not> regExp_test ''HttpTriggerCSharp'' \<and>
   sortTemplates caseInsensitiveCompare (mkTemplate ''HttpTriggerCSharp'' ''Web request'' True)
     (mkTemplate ''TimerTrigger'' ''Timer'' False) Verified = 1 \<and>
   sortTemplates caseInsensitiveCompare (mkTemplate ''HttpTrigger'' ''Zulu'' True)
     (mkTemplate ''HttpTrigger-CSharp'' ''Alpha'' True) Verified = - 1 \<and>
   caseInsensitiveCompare ''Zulu'' ''Alpha'' = 1"
  by code_simp

section \<open>Properties of FunctionCreateStepBase\<close>

text \<open>The paths of the sample project.\<close>

lemma sample_paths:
  "path_join ''/proj'' ''host.json'' = ''/proj/host.json''"
  "path_join ''/proj'' ''QueueTrigger1/index.js'' = ''/proj/QueueTrigger1/index.js''"
  by code_simp+

lemma update_missing: "map_of props k = None \<Longrightarrow> AList.update k v props = props @ [(k, v)]"
  by (induction props) (auto split: if_splits)

lemma filter_missing: "map_of props k = None \<Longrightarrow> filter (\<lambda>p. fst p = k) props = []"
  by (induction props) (auto split: if_splits)

lemma jsTruthy_defaultExtensionBundle: "jsTruthy (Some defaultExtensionBundle)"
  by (simp add: jsTruthy_def defaultExtensionBundle_def)

text \<open>
  A host file that declares a bundle is left alone; one whose object has no such field is
  written back with the default bundle as its last field.
\<close>

lemma verifyExtensionBundle_present:
  assumes "readJSON (JSON_parse env) fs (path_join (projectPath wc) (hostFileName K)) = Inr (JObj props)"
    and "jsTruthy (map_of props ''extensionBundle'')"
  shows "verifyExtensionBundle K env wc fs = Inr fs"
  using assms by (simp add: verifyExtensionBundle_def getProperty_def Let_def)

lemma verifyExtensionBundle_missing:
  assumes "files fs (path_join (projectPath wc) (hostFileName K)) = Some (File txt)"
    and "JSON_parse env txt = Some (JObj props)"
    and "map_of props ''extensionBundle'' = None"
  shows "verifyExtensionBundle K env wc fs =
     Inr (fs\<lparr>files := (files fs)(path_join (projectPath wc) (hostFileName K) \<mapsto>
                File (JSON_stringify env (JObj (props @ [(''extensionBundle'', defaultExtensionBundle)])))),
             writes := writes fs @ [path_join (projectPath wc) (hostFileName K)]\<rparr>)"
  using assms
  by (simp add: verifyExtensionBundle_def readJSON_def readFile_def getProperty_def setProperty_def
      jsTruthy_def writeFormattedJson_def update_missing Let_def)

text \<open>
  C8. The host file exists, parses to an object and has no \<open>extensionBundle\<close> field; the
  platform reads back the document it prints. Then the first run succeeds, the file now parses
  to the old fields followed by the field \<open>extensionBundle\<close>, which occurs once and holds the
  fixed identifier and version range; exactly the host file was written, and no other file
  changed. A second run returns the file system it was given: nothing changes, and the log of
  writes shows no further write.
\<close>

theorem verifyExtensionBundle_idempotent:
  assumes host: "files fs (path_join (projectPath wc) (hostFileName K)) = Some (File txt)"
    and parse: "JSON_parse env txt = Some (JObj props)"
    and missing: "map_of props ''extensionBundle'' = None"
    and roundtrip:
      "JSON_parse env (JSON_stringify env (JObj (props @ [(''extensionBundle'', defaultExtensionBundle)]))) =
         Some (JObj (props @ [(''extensionBundle'', defaultExtensionBundle)]))"
  shows "\<exists>fs1. verifyExtensionBundle K env wc fs = Inr fs1 \<and>
     readJSON (JSON_parse env) fs1 (path_join (projectPath wc) (hostFileName K)) =
       Inr (JObj (props @ [(''extensionBundle'', defaultExtensionBundle)])) \<and>
     filter (\<lambda>p. fst p = ''extensionBundle'') (props @ [(''extensionBundle'', defaultExtensionBundle)]) =
       [(''extensionBundle'', defaultExtensionBundle)] \<and>
     defaultExtensionBundle =
       JObj [(''id'', JStr ''Microsoft.Azure.Functions.ExtensionBundle''),
             (''version'', JStr ''[1.*, 2.0.0)'')] \<and>
     writes fs1 = writes fs @ [path_join (projectPath wc) (hostFileName K)] \<and>
     (\<forall>p. p \<noteq> path_join (projectPath wc) (hostFileName K) \<longrightarrow> files fs1 p = files fs p) \<and>
     verifyExtensionBundle K env wc fs1 = Inr fs1"
proof -
  let ?p = "path_join (projectPath wc) (hostFileName K)"
  let ?doc = "JObj (props @ [(''extensionBundle'', defaultExtensionBundle)])"
  let ?fs1 = "fs\<lparr>files := (files fs)(?p \<mapsto> File (JSON_stringify env ?doc)),
                   writes := writes fs @ [?p]\<rparr>"
  have run1: "verifyExtensionBundle K env wc fs = Inr ?fs1"
    using host parse missing by (rule verifyExtensionBundle_missing)
  have read1: "readJSON (JSON_parse env) ?fs1 ?p = Inr ?doc"
    using roundtrip by (simp add: readJSON_def readFile_def)
  have once: "filter (\<lambda>p. fst p = ''extensionBundle'') (props @ [(''extensionBundle'', defaultExtensionBundle)]) =
       [(''extensionBundle'', defaultExtensionBundle)]"
    using missing by (simp add: filter_missing)
  have "map_of (props @ [(''extensionBundle'', defaultExtensionBundle)]) ''extensionBundle'' =
      Some defaultExtensionBundle"
    using missing by (simp add: map_add_def)
  then have "jsTruthy (map_of (props @ [(''extensionBundle'', defaultExtensionBundle)]) ''extensionBundle'')"
    using jsTruthy_defaultExtensionBundle by simp
  with read1 have run2: "verifyExtensionBundle K env wc ?fs1 = Inr ?fs1"
    by (rule verifyExtensionBundle_present)
  have w: "writes ?fs1 = writes fs @ [?p]" by simp
  have others: "\<forall>p. p \<noteq> ?p \<longrightarrow> files ?fs1 p = files fs p" by simp
  show ?thesis
    by (rule exI [of _ ?fs1]) (intro conjI run1 read1 once defaultExtensionBundle_def w others run2)
qed

text \<open>The theorem of C8 at the sample project.\<close>

theorem verifyExtensionBundle_idempotent_witness:
  "\<exists>fs1. verifyExtensionBundle sampleConstants sampleCreateEnv (sampleWizardContext None)
            sampleFileSystem = Inr fs1 \<and>
     readJSON sampleParse fs1 ''/proj/host.json'' = Inr samplePatchedHost \<and>
     writes fs1 = [''/proj/host.json''] \<and>
     verifyExtensionBundle sampleConstants sampleCreateEnv (sampleWizardContext None) fs1 = Inr fs1"
proof -
  have p: "path_join (projectPath (sampleWizardContext None)) (hostFileName sampleConstants) =
      ''/proj/host.json''"
    by (simp add: sample_paths sampleWizardContext_def sampleConstants_def)
  have e: "JSON_parse sampleCreateEnv = sampleParse" "JSON_stringify sampleCreateEnv = sampleStringify"
    by (simp_all add: sampleCreateEnv_def)
  have d: "JObj ([(''version'', JStr ''2.0'')] @ [(''extensionBundle'', defaultExtensionBundle)]) =
      samplePatchedHost"
    by (simp add: samplePatchedHost_def)
  have host: "files sampleFileSystem
      (path_join (projectPath (sampleWizardContext None)) (hostFileName sampleConstants)) =
        Some (File ''{ version: 2.0 }'')"
    unfolding p by (simp add: sampleFileSystem_def)
  have parse: "JSON_parse sampleCreateEnv ''{ version: 2.0 }'' = Some (JObj [(''version'', JStr ''2.0'')])"
    unfolding e by (simp add: sampleParse_def sampleHost_def)
  have missing: "map_of [(''version'', JStr ''2.0'')] ''extensionBundle'' = None"
    by simp
  have roundtrip: "JSON_parse sampleCreateEnv (JSON_stringify sampleCreateEnv
      (JObj ([(''version'', JStr ''2.0'')] @ [(''extensionBundle'', defaultExtensionBundle)]))) =
      Some (JObj ([(''version'', JStr ''2.0'')] @ [(''extensionBundle'', defaultExtensionBundle)]))"
    unfolding e d by (simp add: sampleParse_def sampleStringify_def)
  have w: "writes sampleFileSystem = []"
    by (simp add: sampleFileSystem_def)
  show ?thesis
    using verifyExtensionBundle_idempotent [OF host parse missing roundtrip]
    unfolding p e d w by auto
qed

text \<open>
  A run of \<open>execute\<close> that throws before the end (no template, or \<open>executeCore\<close> rejects)
  stores nothing, sets no timer and does not run the post-creation steps.
\<close>

lemma execute_no_template:
  "functionTemplate wc = None \<Longrightarrow> execute K env wc st = (Inl (NullPropError ''functionTemplate''), st)"
  by (simp add: execute_def)

lemma execute_core_fails:
  assumes "functionTemplate wc = Some template"
    and "executeCore env wc (disk st) = (Inl e, fs1)"
  shows "\<exists>st'. execute K env wc st = (Inl e, st') \<and> globalState st' = globalState st \<and>
     timers st' = timers st \<and> postFunctionCreate st' = postFunctionCreate st"
  using assms by (simp add: execute_def Let_def)

text \<open>
  C2, as the code has it. In a run that reaches the end (\<open>executeCore\<close> returns the new path and
  the bundle check does not throw), the cached function is stored under the cache key, and
  the timer of 5000 milliseconds set, exactly when the open behaviour of the context is set and
  not empty; otherwise the store and the timers are as before. The post-creation steps are run
  with the cached function in both cases: the call is not in an \<open>else\<close> branch.
\<close>

theorem execute_cache_and_post_steps:
  assumes "functionTemplate wc = Some template"
    and "executeCore env wc (disk st) = (Inr newFilePath, fs1)"
    and "(if shouldUseExtensionBundle K wc template fs1 then verifyExtensionBundle K env wc fs1
          else Inr fs1) = Inr fs2"
  shows "\<exists>st'. execute K env wc st = (Inr (), st') \<and>
     globalState st' cacheKey =
       (if truthy (openBehavior wc)
        then Some \<lparr>projectPath_c = projectPath wc, newFilePath_c = newFilePath,
                    isHttpTrigger_c = isHttpTrigger template\<rparr>
        else globalState st cacheKey) \<and>
     timers st' =
       (if truthy (openBehavior wc) then timers st @ [(5000, ClearCachedFunction)] else timers st) \<and>
     postFunctionCreate st' =
       postFunctionCreate st @
         [\<lparr>projectPath_c = projectPath wc, newFilePath_c = newFilePath,
            isHttpTrigger_c = isHttpTrigger template\<rparr>]"
  using assms
  by (cases "shouldUseExtensionBundle K wc template fs1")
     (simp_all add: execute_def Let_def runPostFunctionCreateSteps_def)

text \<open>The sample create step on the context of an HTTP trigger.\<close>

lemma sample_executeCore:
  "executeCore sampleCreateEnv (httpWizardContext behavior) (disk sampleState) =
     (Inr ''/proj/QueueTrigger1/index.js'',
      sampleFileSystem\<lparr>files := (files sampleFileSystem)
             (''/proj/QueueTrigger1/index.js'' \<mapsto> File ''module.exports''),
         writes := writes sampleFileSystem @ [''/proj/QueueTrigger1/index.js'']\<rparr>)"
  by (simp add: sampleCreateEnv_def httpWizardContext_def sampleWizardContext_def sampleState_def
      sample_paths)

lemma sample_http_context:
  "functionTemplate (httpWizardContext behavior) = Some (mkTemplate ''HttpTrigger'' ''HTTP trigger'' True)"
  "openBehavior (httpWizardContext behavior) = behavior"
  "projectPath (httpWizardContext behavior) = ''/proj''"
  "isHttpTrigger (mkTemplate ''HttpTrigger'' ''HTTP trigger'' True)"
  by (simp_all add: httpWizardContext_def sampleWizardContext_def mkTemplate_def)

lemma sample_no_bundle:
  "(if shouldUseExtensionBundle sampleConstants (httpWizardContext behavior)
        (mkTemplate ''HttpTrigger'' ''HTTP trigger'' True) fs
    then verifyExtensionBundle sampleConstants sampleCreateEnv (httpWizardContext behavior) fs
    else Inr fs) = Inr fs"
  by (simp add: shouldUseExtensionBundle_def mkTemplate_def)

text \<open>
  The theorem of C2 at the sample project, without an open behaviour and with
  \<open>OpenInNewWindow\<close>.
\<close>

theorem execute_cache_and_post_steps_witness:
  "(\<exists>st'. execute sampleConstants sampleCreateEnv (httpWizardContext None) sampleState = (Inr (), st') \<and>
      globalState st' cacheKey = None \<and> timers st' = [] \<and>
      postFunctionCreate st' = [sampleCachedFunction True]) \<and>
   (\<exists>st'. execute sampleConstants sampleCreateEnv (httpWizardContext (Some ''OpenInNewWindow''))
        sampleState = (Inr (), st') \<and>
      globalState st' cacheKey = Some (sampleCachedFunction True) \<and>
      timers st' = [(5000, ClearCachedFunction)] \<and>
      postFunctionCreate st' = [sampleCachedFunction True])"
proof -
  have s: "globalState sampleState cacheKey = None" "timers sampleState = []"
    "postFunctionCreate sampleState = []"
    by (simp_all add: sampleState_def)
  have t: "truthy None = False" "truthy (Some ''OpenInNewWindow'') = True"
    by (simp_all add: truthy_def)
  have 1: "\<exists>st'. execute sampleConstants sampleCreateEnv (httpWizardContext None) sampleState = (Inr (), st') \<and>
      globalState st' cacheKey = None \<and> timers st' = [] \<and>
      postFunctionCreate st' = [sampleCachedFunction True]"
    using execute_cache_and_post_steps
        [where K = sampleConstants, OF sample_http_context(1) sample_executeCore sample_no_bundle,
          of None]
    by (simp add: sample_http_context s t sampleCachedFunction_def)
  have 2: "\<exists>st'. execute sampleConstants sampleCreateEnv (httpWizardContext (Some ''OpenInNewWindow''))
        sampleState = (Inr (), st') \<and>
      globalState st' cacheKey = Some (sampleCachedFunction True) \<and>
      timers st' = [(5000, ClearCachedFunction)] \<and>
      postFunctionCreate st' = [sampleCachedFunction True]"
    using execute_cache_and_post_steps
        [where K = sampleConstants, OF sample_http_context(1) sample_executeCore sample_no_bundle,
          of "Some ''OpenInNewWindow''"]
    by (simp add: sample_http_context s t sampleCachedFunction_def)
  from 1 2 show ?thesis by (rule conjI)
qed

text \<open>
  \<open>createNewProject\<close> called with \<open>openFolder = false\<close> gives the open behaviour \<open>DontOpen\<close>,
  which restarts nothing. The run stores the cached function and runs the post-creation steps
  as well: the two are not exclusive, and storing does not need a behaviour that can restart
  the host.
\<close>

theorem execute_cache_and_post_steps_counterexample:
  "createNewProject_openBehavior False None = Some ''DontOpen'' \<and>
   fst (execute sampleConstants sampleCreateEnv
         (httpWizardContext (createNewProject_openBehavior False None)) sampleState) = Inr () \<and>
   globalState (snd (execute sampleConstants sampleCreateEnv
         (httpWizardContext (createNewProject_openBehavior False None)) sampleState)) cacheKey =
     Some (sampleCachedFunction True) \<and>
   postFunctionCreate (snd (execute sampleConstants sampleCreateEnv
         (httpWizardContext (createNewProject_openBehavior False None)) sampleState)) =
     [sampleCachedFunction True]"
  by (simp add: createNewProject_openBehavior_def execute_def httpWizardContext_def
      sampleWizardContext_def mkTemplate_def sampleCreateEnv_def sampleState_def
      shouldUseExtensionBundle_def truthy_def runPostFunctionCreateSteps_def
      sampleCachedFunction_def sample_paths Let_def)

text \<open>
  The two ways a stored function leaves the store: the callback of the timer, and
  \<open>runPostFunctionCreateStepsFromCache\<close>, which runs the post-creation steps for the function
  it finds and clears the key.
\<close>

lemma runTimerCallback_clears: "globalState (runTimerCallback ClearCachedFunction st) cacheKey = None"
  by (simp add: runTimerCallback_def)






lemma globalState_restart: "globalState (restartExtensionHost st) = globalState st"
  by (simp add: restartExtensionHost_def)





section \<open>Properties of FunctionListStep\<close>

text \<open>
  The copy of the trigger settings leaves the language alone unless one of the keys, in lower
  case, is \<open>language\<close>; it never touches the project path.
\<close>

lemma fold_setProperty_language:
  "''language'' \<notin> toLowerCase ` fst ` set ts \<Longrightarrow>
   language (fold (\<lambda>(key, v) wc. setProperty_wc wc (toLowerCase key) v) ts wc) = language wc"
  by (induction ts arbitrary: wc) (auto simp: setProperty_wc_def)

lemma fold_setProperty_projectPath:
  "projectPath (fold (\<lambda>(key, v) wc. setProperty_wc wc (toLowerCase key) v) ts wc) = projectPath wc"
  by (induction ts arbitrary: wc) (auto simp: setProperty_wc_def)

lemma getSubWizard_none:
  "(fst (getSubWizard K env this wc) = Inr None) = (functionTemplate wc = None)"
  by (auto simp: getSubWizard_def Let_def split: option.splits sum.splits)

text \<open>
  With a template selected and the language untouched by the trigger settings, the sub-wizard
  holds the steps of the specification's mapping, then the prompts of the template's settings,
  then the storage steps when the template is not an HTTP trigger and the project has no
  storage connection. Only the factory under the \<open>case\<close> label of the language is awaited, and
  the storage lookup is made for a template that is not an HTTP trigger only.
\<close>

lemma getSubWizard_steps:
  assumes "functionTemplate wc = Some template"
    and "''language'' \<notin> toLowerCase ` fst ` set (triggerSettings this)"
    and "language wc = Some (Java K) \<longrightarrow> JavaFunctionCreateStep_rejects env = None"
    and "language wc \<noteq> Some (Java K) \<and>
         (language wc = Some (CSharp K) \<or> language wc = Some (FSharp K)) \<longrightarrow>
           validateDotnetInstalled env = None"
    and "\<not> isHttpTrigger template \<longrightarrow> getAzureWebJobsStorage env (projectPath wc) = Inr storage"
  shows "\<exists>w. fst (getSubWizard K env this wc) = Inr (Some w) \<and>
     promptSteps_w w =
       fst (spec_languageSteps K (language wc)) @
       addBindingSettingSteps env (userPromptedSettings template) @
       (if \<not> isHttpTrigger template \<and> \<not> truthy storage then [AzureWebJobsStoragePromptStep]
        else []) \<and>
     executeSteps_w w =
       snd (spec_languageSteps K (language wc)) #
       (if \<not> isHttpTrigger template \<and> \<not> truthy storage then [AzureWebJobsStorageExecuteStep]
        else []) \<and>
     title_w w = Localized ''createFunction'' [name_t template]"
  using assms
  by (simp add: getSubWizard_def Let_def fold_setProperty_language fold_setProperty_projectPath
      spec_languageSteps_def DotnetFunctionCreateStep_createStep_def
      JavaFunctionCreateStep_createStep_def)

text \<open>An error of the factory that is awaited, or of the storage lookup, leaves the function.\<close>

lemma getSubWizard_factory_rejects:
  assumes "functionTemplate wc = Some template"
    and "''language'' \<notin> toLowerCase ` fst ` set (triggerSettings this)"
  shows "language wc = Some (Java K) \<and> JavaFunctionCreateStep_rejects env = Some e \<longrightarrow>
       fst (getSubWizard K env this wc) = Inl e"
    and "language wc \<noteq> Some (Java K) \<and>
       (language wc = Some (CSharp K) \<or> language wc = Some (FSharp K)) \<and>
       validateDotnetInstalled env = Some e \<longrightarrow>
       fst (getSubWizard K env this wc) = Inl e"
  using assms
  by (simp_all add: getSubWizard_def Let_def fold_setProperty_language fold_setProperty_projectPath
      DotnetFunctionCreateStep_createStep_def JavaFunctionCreateStep_createStep_def)

lemma getSubWizard_storage_rejects:
  assumes "functionTemplate wc = Some template"
    and "''language'' \<notin> toLowerCase ` fst ` set (triggerSettings this)"
    and "language wc = Some (Java K) \<longrightarrow> JavaFunctionCreateStep_rejects env = None"
    and "language wc \<noteq> Some (Java K) \<and>
         (language wc = Some (CSharp K) \<or> language wc = Some (FSharp K)) \<longrightarrow>
           validateDotnetInstalled env = None"
    and "\<not> isHttpTrigger template" and "getAzureWebJobsStorage env (projectPath wc) = Inl e"
  shows "fst (getSubWizard K env this wc) = Inl e"
  using assms
  by (simp add: getSubWizard_def Let_def fold_setProperty_language fold_setProperty_projectPath
      DotnetFunctionCreateStep_createStep_def JavaFunctionCreateStep_createStep_def)

lemma spec_languageSteps_table:
  assumes "distinct [Java K, CSharp K, FSharp K, TypeScript K]"
  shows "spec_languageSteps K (Some (Java K)) =
       ([JavaPackageNameStep, JavaFunctionNameStep], JavaFunctionCreateStep)"
    and "spec_languageSteps K (Some (CSharp K)) =
       ([DotnetFunctionNameStep, DotnetNamespaceStep], DotnetFunctionCreateStep)"
    and "spec_languageSteps K (Some (FSharp K)) =
       ([DotnetFunctionNameStep, DotnetNamespaceStep], DotnetFunctionCreateStep)"
    and "spec_languageSteps K (Some (TypeScript K)) =
       ([ScriptFunctionNameStep], TypeScriptFunctionCreateStep)"
    and "lang \<notin> {Some (Java K), Some (CSharp K), Some (FSharp K), Some (TypeScript K)} \<Longrightarrow>
       spec_languageSteps K lang = ([ScriptFunctionNameStep], ScriptFunctionCreateStep)"
  using assms by (auto simp: spec_languageSteps_def)

text \<open>
  C1, as the code has it. \<open>getSubWizard\<close> returns none exactly when no template is selected.
  When one is selected and no key of the trigger settings is \<open>language\<close> in lower case: if the
  tool check of the create step of the context's own language passes (Java and the .NET
  languages have one) and, for a template that is not an HTTP trigger, the storage lookup
  answers, it returns a sub-wizard whose prompt steps begin with, and whose execute steps begin
  with, the steps of the fixed mapping for that language; if that tool check or that lookup
  rejects, the function rejects with the same error. The last five conjuncts spell the mapping
  out for enum members that are distinct strings.
\<close>

theorem getSubWizard_language_mapping:
  assumes "distinct [Java K, CSharp K, FSharp K, TypeScript K]"
  shows "(fst (getSubWizard K env this wc) = Inr None \<longleftrightarrow> functionTemplate wc = None) \<and>
     (functionTemplate wc = Some template \<and>
      ''language'' \<notin> toLowerCase ` fst ` set (triggerSettings this) \<and>
      (language wc = Some (Java K) \<longrightarrow> JavaFunctionCreateStep_rejects env = None) \<and>
      (language wc = Some (CSharp K) \<or> language wc = Some (FSharp K) \<longrightarrow>
         validateDotnetInstalled env = None) \<and>
      (\<not> isHttpTrigger template \<longrightarrow>
         getAzureWebJobsStorage env (projectPath wc) = Inr storage) \<longrightarrow>
      (\<exists>w. fst (getSubWizard K env this wc) = Inr (Some w) \<and>
         promptSteps_w w =
           fst (spec_languageSteps K (language wc)) @
           addBindingSettingSteps env (userPromptedSettings template) @
           (if \<not> isHttpTrigger template \<and> \<not> truthy storage then [AzureWebJobsStoragePromptStep]
            else []) \<and>
         executeSteps_w w =
           snd (spec_languageSteps K (language wc)) #
           (if \<not> isHttpTrigger template \<and> \<not> truthy storage then [AzureWebJobsStorageExecuteStep]
            else []))) \<and>
     (functionTemplate wc = Some template \<and>
      ''language'' \<notin> toLowerCase ` fst ` set (triggerSettings this) \<and>
      language wc = Some (Java K) \<and> JavaFunctionCreateStep_rejects env = Some e \<longrightarrow>
      fst (getSubWizard K env this wc) = Inl e) \<and>
     (functionTemplate wc = Some template \<and>
      ''language'' \<notin> toLowerCase ` fst ` set (triggerSettings this) \<and>
      (language wc = Some (CSharp K) \<or> language wc = Some (FSharp K)) \<and>
      validateDotnetInstalled env = Some e \<longrightarrow>
      fst (getSubWizard K env this wc) = Inl e) \<and>
     (functionTemplate wc = Some template \<and>
      ''language'' \<notin> toLowerCase ` fst ` set (triggerSettings this) \<and>
      (language wc = Some (Java K) \<longrightarrow> JavaFunctionCreateStep_rejects env = None) \<and>
      (language wc = Some (CSharp K) \<or> language wc = Some (FSharp K) \<longrightarrow>
         validateDotnetInstalled env = None) \<and>
      \<not> isHttpTrigger template \<and> getAzureWebJobsStorage env (projectPath wc) = Inl e \<longrightarrow>
      fst (getSubWizard K env this wc) = Inl e) \<and>
     spec_languageSteps K (Some (Java K)) =
       ([JavaPackageNameStep, JavaFunctionNameStep], JavaFunctionCreateStep) \<and>
     spec_languageSteps K (Some (CSharp K)) =
       ([DotnetFunctionNameStep, DotnetNamespaceStep], DotnetFunctionCreateStep) \<and>
     spec_languageSteps K (Some (FSharp K)) =
       ([DotnetFunctionNameStep, DotnetNamespaceStep], DotnetFunctionCreateStep) \<and>
     spec_languageSteps K (Some (TypeScript K)) =
       ([ScriptFunctionNameStep], TypeScriptFunctionCreateStep) \<and>
     (lang \<notin> {Some (Java K), Some (CSharp K), Some (FSharp K), Some (TypeScript K)} \<longrightarrow>
        spec_languageSteps K lang = ([ScriptFunctionNameStep], ScriptFunctionCreateStep))"
proof -
  have j: "language wc = Some (CSharp K) \<or> language wc = Some (FSharp K) \<Longrightarrow>
      language wc \<noteq> Some (Java K)"
    using assms by auto
  have 1: "fst (getSubWizard K env this wc) = Inr None \<longleftrightarrow> functionTemplate wc = None"
    by (rule getSubWizard_none)
  have 2: "functionTemplate wc = Some template \<and>
      ''language'' \<notin> toLowerCase ` fst ` set (triggerSettings this) \<and>
      (language wc = Some (Java K) \<longrightarrow> JavaFunctionCreateStep_rejects env = None) \<and>
      (language wc = Some (CSharp K) \<or> language wc = Some (FSharp K) \<longrightarrow>
         validateDotnetInstalled env = None) \<and>
      (\<not> isHttpTrigger template \<longrightarrow>
         getAzureWebJobsStorage env (projectPath wc) = Inr storage) \<longrightarrow>
      (\<exists>w. fst (getSubWizard K env this wc) = Inr (Some w) \<and>
         promptSteps_w w =
           fst (spec_languageSteps K (language wc)) @
           addBindingSettingSteps env (userPromptedSettings template) @
           (if \<not> isHttpTrigger template \<and> \<not> truthy storage then [AzureWebJobsStoragePromptStep]
            else []) \<and>
         executeSteps_w w =
           snd (spec_languageSteps K (language wc)) #
           (if \<not> isHttpTrigger template \<and> \<not> truthy storage then [AzureWebJobsStorageExecuteStep]
            else []))"
    using getSubWizard_steps [of wc template this K env storage] by blast
  have 3: "functionTemplate wc = Some template \<and>
      ''language'' \<notin> toLowerCase ` fst ` set (triggerSettings this) \<and>
      language wc = Some (Java K) \<and> JavaFunctionCreateStep_rejects env = Some e \<longrightarrow>
      fst (getSubWizard K env this wc) = Inl e"
    using getSubWizard_factory_rejects(1) [of wc template this K env e] by blast
  have 4: "functionTemplate wc = Some template \<and>
      ''language'' \<notin> toLowerCase ` fst ` set (triggerSettings this) \<and>
      (language wc = Some (CSharp K) \<or> language wc = Some (FSharp K)) \<and>
      validateDotnetInstalled env = Some e \<longrightarrow>
      fst (getSubWizard K env this wc) = Inl e"
    using getSubWizard_factory_rejects(2) [of wc template this K env e] j by blast
  have 5: "functionTemplate wc = Some template \<and>
      ''language'' \<notin> toLowerCase ` fst ` set (triggerSettings this) \<and>
      (language wc = Some (Java K) \<longrightarrow> JavaFunctionCreateStep_rejects env = None) \<and>
      (language wc = Some (CSharp K) \<or> language wc = Some (FSharp K) \<longrightarrow>
         validateDotnetInstalled env = None) \<and>
      \<not> isHttpTrigger template \<and> getAzureWebJobsStorage env (projectPath wc) = Inl e \<longrightarrow>
      fst (getSubWizard K env this wc) = Inl e"
    using getSubWizard_storage_rejects [of wc template this K env e] by blast
  have 6: "lang \<notin> {Some (Java K), Some (CSharp K), Some (FSharp K), Some (TypeScript K)} \<longrightarrow>
        spec_languageSteps K lang = ([ScriptFunctionNameStep], ScriptFunctionCreateStep)"
    using spec_languageSteps_table(5) [OF assms] by blast
  show ?thesis
    by (intro conjI 1 2 3 4 5 6 spec_languageSteps_table(1-4) [OF assms])
qed

text \<open>
  The theorem of C1 at three runs: a Java project with a queue trigger template, a JavaScript
  project with an HTTP trigger template on a machine without the Java and .NET tools, and a C#
  project on that machine.
\<close>

theorem getSubWizard_language_mapping_witness:
  "(\<exists>w. fst (getSubWizard sampleConstants sampleSubWizardEnv sampleListStep javaWizardContext) =
       Inr (Some w) \<and>
     promptSteps_w w =
       [JavaPackageNameStep, JavaFunctionNameStep, SettingStep \<lparr>name_s = ''queueName''\<rparr>] \<and>
     executeSteps_w w = [JavaFunctionCreateStep]) \<and>
   (\<exists>w. fst (getSubWizard sampleConstants noToolsEnv sampleListStep (httpWizardContext None)) =
       Inr (Some w) \<and>
     promptSteps_w w = [ScriptFunctionNameStep] \<and>
     executeSteps_w w = [ScriptFunctionCreateStep]) \<and>
   fst (getSubWizard sampleConstants noToolsEnv sampleListStep csharpWizardContext) =
     Inl (Error ''dotnet is not installed'')"
proof -
  have d: "distinct [Java sampleConstants, CSharp sampleConstants, FSharp sampleConstants,
      TypeScript sampleConstants]"
    by (simp add: sampleConstants_def)
  have k: "''language'' \<notin> toLowerCase ` fst ` set (triggerSettings sampleListStep)"
    by (simp add: sampleListStep_def toLowerCase_def toLowerCase_char_def)
  have c: "Java sampleConstants = ''Java''" "CSharp sampleConstants = ''C#''"
    "FSharp sampleConstants = ''F#''" "TypeScript sampleConstants = ''TypeScript''"
    by (simp_all add: sampleConstants_def)
  have jv: "functionTemplate javaWizardContext = Some queueTemplate"
    "language javaWizardContext = Some ''Java''" "projectPath javaWizardContext = ''/proj''"
    by (simp_all add: javaWizardContext_def sampleWizardContext_def)
  have ht: "functionTemplate (httpWizardContext None) =
      Some (mkTemplate ''HttpTrigger'' ''HTTP trigger'' True)"
    "language (httpWizardContext None) = Some ''JavaScript''"
    "isHttpTrigger (mkTemplate ''HttpTrigger'' ''HTTP trigger'' True)"
    "userPromptedSettings (mkTemplate ''HttpTrigger'' ''HTTP trigger'' True) = []"
    by (simp_all add: httpWizardContext_def sampleWizardContext_def mkTemplate_def)
  have cs: "functionTemplate csharpWizardContext = Some queueTemplate"
    "language csharpWizardContext = Some ''C#''"
    by (simp_all add: csharpWizardContext_def sampleWizardContext_def)
  have e: "JavaFunctionCreateStep_rejects sampleSubWizardEnv = None"
    "getAzureWebJobsStorage sampleSubWizardEnv p = Inr (Some ''UseDevelopmentStorage=true'')"
    "addBindingSettingSteps sampleSubWizardEnv (userPromptedSettings queueTemplate) =
      [SettingStep \<lparr>name_s = ''queueName''\<rparr>]"
    "truthy (Some ''UseDevelopmentStorage=true'')"
    "addBindingSettingSteps noToolsEnv [] = []"
    "validateDotnetInstalled noToolsEnv = Some (Error ''dotnet is not installed'')" for p
    by (simp_all add: sampleSubWizardEnv_def noToolsEnv_def queueTemplate_def truthy_def)
  note m1 = getSubWizard_language_mapping
      [OF d, of sampleSubWizardEnv sampleListStep javaWizardContext queueTemplate
        "Some ''UseDevelopmentStorage=true''" UserCancelledError None]
  note m2 = getSubWizard_language_mapping
      [OF d, of noToolsEnv sampleListStep "httpWizardContext None"
        "mkTemplate ''HttpTrigger'' ''HTTP trigger'' True" None UserCancelledError
        "Some ''JavaScript''"]
  note m3 = getSubWizard_language_mapping
      [OF d, of noToolsEnv sampleListStep csharpWizardContext queueTemplate None
        "Error ''dotnet is not installed''" None]
  have 1: "\<exists>w. fst (getSubWizard sampleConstants sampleSubWizardEnv sampleListStep javaWizardContext) =
       Inr (Some w) \<and>
     promptSteps_w w =
       [JavaPackageNameStep, JavaFunctionNameStep, SettingStep \<lparr>name_s = ''queueName''\<rparr>] \<and>
     executeSteps_w w = [JavaFunctionCreateStep]"
    using m1 k by (auto simp: c jv e)
  have 2: "\<exists>w. fst (getSubWizard sampleConstants noToolsEnv sampleListStep (httpWizardContext None)) =
       Inr (Some w) \<and>
     promptSteps_w w = [ScriptFunctionNameStep] \<and>
     executeSteps_w w = [ScriptFunctionCreateStep]"
    using m2 k by (auto simp: c ht e)
  have 3: "fst (getSubWizard sampleConstants noToolsEnv sampleListStep csharpWizardContext) =
     Inl (Error ''dotnet is not installed'')"
    using m3 k by (auto simp: c cs e)
  from 1 2 3 show ?thesis by (intro conjI)
qed

text \<open>
  Two runs with a template selected. The trigger settings hold the key \<open>Language\<close>: the first
  \<open>switch\<close> sees JavaScript and the second sees Java, so the script name prompt comes with the
  Java create step, a pair the mapping gives to no language. And in a C# project without the
  .NET tools the factory of the create step rejects, and no sub-wizard is returned.
\<close>

theorem getSubWizard_language_mapping_counterexample:
  "language (httpWizardContext None) = Some ''JavaScript'' \<and>
   fst (getSubWizard sampleConstants sampleSubWizardEnv languageListStep (httpWizardContext None)) =
     Inr (Some \<lparr>promptSteps_w = [ScriptFunctionNameStep],
                 executeSteps_w = [JavaFunctionCreateStep],
                 title_w = Localized ''createFunction'' [''HTTP trigger'']\<rparr>) \<and>
   functionTemplate csharpWizardContext = Some queueTemplate \<and>
   fst (getSubWizard sampleConstants
          (sampleSubWizardEnv\<lparr>validateDotnetInstalled := Some (Error ''dotnet is not installed'')\<rparr>)
          sampleListStep csharpWizardContext) =
     Inl (Error ''dotnet is not installed'')"
  by (simp add: getSubWizard_def httpWizardContext_def csharpWizardContext_def
      sampleWizardContext_def sampleConstants_def sampleSubWizardEnv_def languageListStep_def
      sampleListStep_def mkTemplate_def queueTemplate_def setProperty_wc_def toLowerCase_def
      toLowerCase_char_def DotnetFunctionCreateStep_createStep_def
      JavaFunctionCreateStep_createStep_def truthy_def Let_def)

section \<open>Properties of FunctionAppProvider.createChildImpl\<close>

text \<open>
  The \<open>try\<close> statement alone: the error leaves it as it came; the warning is shown, and the
  setting written on acceptance, only when the error is not a cancellation and advanced
  creation is off.
\<close>

lemma createChildImpl_execute_failure:
  assumes "wizard_execute env executeSteps wc = Inl e"
  shows "fst (createChildImpl_execute K env advancedCreation executeSteps wc st) = Inl e \<and>
     (\<not> isUserCancelledError e \<and> \<not> advancedCreation \<longrightarrow>
        warningsShown (snd (createChildImpl_execute K env advancedCreation executeSteps wc st)) =
          warningsShown st @
            [(Localized ''tryAdvancedCreate'' [extensionPrefix K, ''advancedCreation''],
              [Localized ''turnOn'' []])] \<and>
        globalSettings (snd (createChildImpl_execute K env advancedCreation executeSteps wc st)) =
          (if showWarningMessage env
                (Localized ''tryAdvancedCreate'' [extensionPrefix K, ''advancedCreation''])
                [Localized ''turnOn'' []] = Inr (Localized ''turnOn'' [])
           then AList.update ''advancedCreation'' (JBool True) (globalSettings st)
           else globalSettings st)) \<and>
     (isUserCancelledError e \<or> advancedCreation \<longrightarrow>
        snd (createChildImpl_execute K env advancedCreation executeSteps wc st) = st)"
  using assms
  by (auto simp: createChildImpl_execute_def advancedCreationKey_def Let_def split: sum.splits)

text \<open>A successful execute phase shows nothing and changes no setting.\<close>

lemma createChildImpl_execute_success:
  "wizard_execute env executeSteps wc = Inr wc' \<Longrightarrow>
   createChildImpl_execute K env advancedCreation executeSteps wc st = (Inr wc', st)"
  by (simp add: createChildImpl_execute_def)

text \<open>The choice of the default runtime shows no warning and writes no setting.\<close>

lemma getDefaultRuntime_keeps:
  "warningsShown (snd (getDefaultRuntime K env st)) = warningsShown st"
  "globalSettings (snd (getDefaultRuntime K env st)) = globalSettings st"
  by (simp_all add: getDefaultRuntime_def Let_def split: option.splits prod.splits)

text \<open>
  C9. A run of \<open>createChildImpl\<close> reaches the execute phase: on the quick path (advanced
  creation off) the location is set, the prompts give a site name and the related name is
  generated; on the advanced path the prompts give a site name. The execute phase fails with
  the error \<open>e\<close>. Then \<open>createChildImpl\<close> fails with \<open>e\<close> itself. When \<open>e\<close> is not a
  cancellation by the user and advanced creation is off, exactly one warning is added, the
  suggestion with the single button to turn advanced creation on, and the global setting
  \<open>advancedCreation\<close> is set to true exactly when the user picks that button; a dismissed
  warning writes no setting. When \<open>e\<close> is a cancellation or advanced creation is on, no
  warning is shown and no setting is written.
\<close>

theorem createChildImpl_failure_suggestion:
  assumes setLoc:
      "\<not> jsTruthy (advancedCreationSetting env) \<longrightarrow>
         setLocation env
           \<lparr>newSiteName = None,
              newSiteOS =
                Some (if projectLanguageSetting env = Some (Python K) then ''linux'' else ''windows''),
              newSiteRuntime = getFunctionsWorkerRuntime env (projectLanguageSetting env),
              useConsumptionPlan = True, newResourceGroupName = resourceGroup,
              newStorageAccountName = None, location = None, site = None\<rparr> ''westus'' = Inr wc1"
    and prompt:
      "wizard_prompt env
         (if jsTruthy (advancedCreationSetting env)
          then [SiteNameStep, SiteOSStep, SiteHostingPlanStep, SiteRuntimeStep,
                ResourceGroupListStep, StorageAccountListStep]
          else [SiteNameStep, SiteOSStep, SiteHostingPlanStep, SiteRuntimeStep])
         (if jsTruthy (advancedCreationSetting env)
          then \<lparr>newSiteName = None, newSiteOS = None, newSiteRuntime = None,
                  useConsumptionPlan = False, newResourceGroupName = resourceGroup,
                  newStorageAccountName = None, location = None, site = None\<rparr>
          else wc1) = Inr wc2"
    and siteName: "newSiteName wc2 = Some siteName"
    and relatedName:
      "\<not> jsTruthy (advancedCreationSetting env) \<longrightarrow>
         relatedNameTask env wc2 = Inr (Some newName) \<and> newName \<noteq> []"
    and execute_fails:
      "wizard_execute env
         (if jsTruthy (advancedCreationSetting env)
          then [SiteCreateStep (fst (getDefaultRuntime K env st)) (projectLanguageSetting env)]
          else [ResourceGroupCreateStep, StorageAccountCreateStep,
                SiteCreateStep (fst (getDefaultRuntime K env st)) (projectLanguageSetting env)])
         (if jsTruthy (advancedCreationSetting env) then wc2
          else wc2\<lparr>newResourceGroupName :=
                     (if truthy resourceGroup then resourceGroup else Some newName),
                   newStorageAccountName := Some newName\<rparr>) = Inl e"
  shows "fst (createChildImpl K env resourceGroup st) = Inl e \<and>
     (\<not> isUserCancelledError e \<and> \<not> jsTruthy (advancedCreationSetting env) \<longrightarrow>
        warningsShown (snd (createChildImpl K env resourceGroup st)) =
          warningsShown st @
            [(Localized ''tryAdvancedCreate'' [extensionPrefix K, ''advancedCreation''],
              [Localized ''turnOn'' []])] \<and>
        globalSettings (snd (createChildImpl K env resourceGroup st)) =
          (if showWarningMessage env
                (Localized ''tryAdvancedCreate'' [extensionPrefix K, ''advancedCreation''])
                [Localized ''turnOn'' []] = Inr (Localized ''turnOn'' [])
           then AList.update ''advancedCreation'' (JBool True) (globalSettings st)
           else globalSettings st)) \<and>
     (isUserCancelledError e \<or> jsTruthy (advancedCreationSetting env) \<longrightarrow>
        warningsShown (snd (createChildImpl K env resourceGroup st)) = warningsShown st \<and>
        globalSettings (snd (createChildImpl K env resourceGroup st)) = globalSettings st)"
proof -
  obtain rt st1 where g: "getDefaultRuntime K env st = (rt, st1)"
    by (cases "getDefaultRuntime K env st")
  have k: "warningsShown st1 = warningsShown st" "globalSettings st1 = globalSettings st"
    using getDefaultRuntime_keeps [of K env st] g by simp_all
  show ?thesis
  proof (cases "jsTruthy (advancedCreationSetting env)")
    case True
    then show ?thesis
      using prompt siteName execute_fails g k
      by (simp add: createChildImpl_def createChildImpl_execute_def Let_def)
  next
    case False
    then show ?thesis
      using setLoc prompt siteName relatedName execute_fails g k
      by (auto simp: createChildImpl_def createChildImpl_execute_def advancedCreationKey_def
          Let_def truthy_def split: sum.splits)
  qed
qed

text \<open>
  The theorem of C9 at four failing runs of \<open>createChildImpl\<close>: a conflict on the quick path
  with a user who accepts the suggestion, the same with a user who dismisses it, a cancellation
  by the user, and a conflict on the advanced path.
\<close>

theorem createChildImpl_failure_suggestion_witness:
  "fst (createChildImpl sampleConstants (sampleProviderEnv (Error ''Conflict'') True None) None
         sampleProviderState) = Inl (Error ''Conflict'') \<and>
   warningsShown (snd (createChildImpl sampleConstants
         (sampleProviderEnv (Error ''Conflict'') True None) None sampleProviderState)) =
     [(Localized ''tryAdvancedCreate'' [''azureFunctions'', ''advancedCreation''],
       [Localized ''turnOn'' []])] \<and>
   globalSettings (snd (createChildImpl sampleConstants
         (sampleProviderEnv (Error ''Conflict'') True None) None sampleProviderState)) =
     [(''advancedCreation'', JBool True)] \<and>
   globalSettings (snd (createChildImpl sampleConstants
         (sampleProviderEnv (Error ''Conflict'') False None) None sampleProviderState)) = [] \<and>
   fst (createChildImpl sampleConstants (sampleProviderEnv UserCancelledError True None) None
         sampleProviderState) = Inl UserCancelledError \<and>
   warningsShown (snd (createChildImpl sampleConstants
         (sampleProviderEnv UserCancelledError True None) None sampleProviderState)) = [] \<and>
   fst (createChildImpl sampleConstants
         (sampleProviderEnv (Error ''Conflict'') True (Some (JBool True))) None
         sampleProviderState) = Inl (Error ''Conflict'') \<and>
   warningsShown (snd (createChildImpl sampleConstants
         (sampleProviderEnv (Error ''Conflict'') True (Some (JBool True))) None
         sampleProviderState)) = []"
proof -
  let ?quick = "\<lparr>newSiteName = None, newSiteOS = Some ''windows'', newSiteRuntime = Some ''node'',
      useConsumptionPlan = True, newResourceGroupName = None, newStorageAccountName = None,
      location = Some ''westus'', site = None\<rparr>"
  let ?advanced = "\<lparr>newSiteName = None, newSiteOS = None, newSiteRuntime = None,
      useConsumptionPlan = False, newResourceGroupName = None, newStorageAccountName = None,
      location = None, site = None\<rparr>"
  have adv: "advancedCreationSetting (sampleProviderEnv x a s) = s" for x a s
    by (simp add: sampleProviderEnv_def)
  have j: "jsTruthy None = False" "jsTruthy (Some (JBool True)) = True"
    by (simp_all add: jsTruthy_def)
  have l: "\<not> jsTruthy (advancedCreationSetting (sampleProviderEnv x a None)) \<longrightarrow>
      setLocation (sampleProviderEnv x a None)
        \<lparr>newSiteName = None,
           newSiteOS =
             Some (if projectLanguageSetting (sampleProviderEnv x a None) =
                      Some (Python sampleConstants) then ''linux'' else ''windows''),
           newSiteRuntime =
             getFunctionsWorkerRuntime (sampleProviderEnv x a None)
               (projectLanguageSetting (sampleProviderEnv x a None)),
           useConsumptionPlan = True, newResourceGroupName = None,
           newStorageAccountName = None, location = None, site = None\<rparr> ''westus'' = Inr ?quick"
    for x a
    by (simp add: sampleProviderEnv_def sampleConstants_def)
  have l': "\<not> jsTruthy (advancedCreationSetting (sampleProviderEnv x a (Some (JBool True)))) \<longrightarrow>
      setLocation (sampleProviderEnv x a (Some (JBool True)))
        \<lparr>newSiteName = None,
           newSiteOS =
             Some (if projectLanguageSetting (sampleProviderEnv x a (Some (JBool True))) =
                      Some (Python sampleConstants) then ''linux'' else ''windows''),
           newSiteRuntime =
             getFunctionsWorkerRuntime (sampleProviderEnv x a (Some (JBool True)))
               (projectLanguageSetting (sampleProviderEnv x a (Some (JBool True)))),
           useConsumptionPlan = True, newResourceGroupName = None,
           newStorageAccountName = None, location = None, site = None\<rparr> ''westus'' = Inr ?quick"
    for x a
    by (simp add: adv j)
  have p: "wizard_prompt (sampleProviderEnv x a s) steps wc = Inr (wc\<lparr>newSiteName := Some ''my-app''\<rparr>)"
    for x a s steps wc
    by (simp add: sampleProviderEnv_def)
  have n: "newSiteName (wc\<lparr>newSiteName := Some ''my-app''\<rparr>) = Some ''my-app''"
    for wc :: IAppServiceWizardContext
    by simp
  have r: "\<not> jsTruthy (advancedCreationSetting (sampleProviderEnv x a s)) \<longrightarrow>
      relatedNameTask (sampleProviderEnv x a s) wc = Inr (Some ''myapp1'') \<and> ''myapp1'' \<noteq> []"
    for x a s wc
    by (simp add: sampleProviderEnv_def)
  have x: "wizard_execute (sampleProviderEnv x a s) steps wc = Inl x" for x a s steps wc
    by (simp add: sampleProviderEnv_def)
  have w: "showWarningMessage (sampleProviderEnv x True s) m [b] = Inr b"
    "showWarningMessage (sampleProviderEnv x False s) m [b] = Inl UserCancelledError" for x s m b
    by (simp_all add: sampleProviderEnv_def)
  have c: "isUserCancelledError (Error ''Conflict'') = False"
    "isUserCancelledError UserCancelledError = True"
    by (simp_all add: isUserCancelledError_def)
  have s: "warningsShown sampleProviderState = []" "globalSettings sampleProviderState = []"
    "extensionPrefix sampleConstants = ''azureFunctions''"
    by (simp_all add: sampleProviderState_def sampleConstants_def)
  note a1 = createChildImpl_failure_suggestion
      [where env = "sampleProviderEnv (Error ''Conflict'') True None" and K = sampleConstants
         and resourceGroup = None and st = sampleProviderState, OF l p n r x]
  note a2 = createChildImpl_failure_suggestion
      [where env = "sampleProviderEnv (Error ''Conflict'') False None" and K = sampleConstants
         and resourceGroup = None and st = sampleProviderState, OF l p n r x]
  note a3 = createChildImpl_failure_suggestion
      [where env = "sampleProviderEnv UserCancelledError True None" and K = sampleConstants
         and resourceGroup = None and st = sampleProviderState, OF l p n r x]
  note a4 = createChildImpl_failure_suggestion
      [where env = "sampleProviderEnv (Error ''Conflict'') True (Some (JBool True))"
         and K = sampleConstants and resourceGroup = None and st = sampleProviderState,
        OF l' p n r x]
  show ?thesis
    using a1 a2 a3 a4 by (simp add: adv j w c s)
qed

section \<open>Properties of uploadAppSettings\<close>

text \<open>
  The three ways through the reads: an encrypted file that decrypts, one whose decryption
  fails, and a plain file.
\<close>

lemma readLocalSettings_encrypted:
  assumes "readJSON (parseLocalSettings env) fs p = Inr localSettings"
    and "getProperty localSettings ''IsEncrypted'' = Inr isEncrypted" and "jsTruthy isEncrypted"
    and "decryptLocalSettings env p fs = (None, fs1)"
    and "encryptLocalSettings env p fs1 = (r, fs2)"
  shows "readLocalSettings env p fs =
     ((case r of Some e \<Rightarrow> Inl e | None \<Rightarrow> readJSON (parseLocalSettings env) fs1 p), fs2)"
  using assms by (simp add: readLocalSettings_def Let_def split: option.splits)

lemma readLocalSettings_decrypt_fails:
  assumes "readJSON (parseLocalSettings env) fs p = Inr localSettings"
    and "getProperty localSettings ''IsEncrypted'' = Inr isEncrypted" and "jsTruthy isEncrypted"
    and "decryptLocalSettings env p fs = (Some e, fs1)"
  shows "readLocalSettings env p fs = (Inl e, fs1)"
  using assms by (simp add: readLocalSettings_def)

lemma readLocalSettings_plain:
  assumes "readJSON (parseLocalSettings env) fs p = Inr localSettings"
    and "getProperty localSettings ''IsEncrypted'' = Inr isEncrypted" and "\<not> jsTruthy isEncrypted"
  shows "readLocalSettings env p fs = (Inr localSettings, fs)"
  using assms by (simp add: readLocalSettings_def)

text \<open>
  Nothing after the reads touches the local files, and an error of the reads is the error of
  the command.
\<close>

lemma uploadAppSettings_localDisk:
  assumes "getLocalSettingsFile env wp = Inr p"
    and "(case node of None \<Rightarrow> showTreeItemPicker env | Some n \<Rightarrow> Inr n) = Inr client"
  shows "localDisk (snd (uploadAppSettings env node wp st)) =
     snd (readLocalSettings env p (localDisk st))"
  using assms
  by (auto simp: uploadAppSettings_def Let_def split: sum.splits option.splits prod.splits)

lemma uploadAppSettings_read_error:
  assumes "getLocalSettingsFile env wp = Inr p"
    and "(case node of None \<Rightarrow> showTreeItemPicker env | Some n \<Rightarrow> Inr n) = Inr client"
    and "fst (readLocalSettings env p (localDisk st)) = Inl e"
  shows "fst (uploadAppSettings env node wp st) = Inl e"
  using assms
  by (auto simp: uploadAppSettings_def Let_def split: sum.splits option.splits prod.splits)

text \<open>
  C10. The settings file is marked encrypted, so \<open>decryptLocalSettings\<close> is called; it leaves the
  files \<open>fs1\<close>. If it succeeds, the second read is made on \<open>fs1\<close>, and \<open>encryptLocalSettings\<close> is
  applied to \<open>fs1\<close> whatever that read gives: the local files at the end of the command are the
  files \<open>fs2\<close> that this one call leaves, also when the second read throws and when a later step
  of the upload fails; an error of the second read is the error of the command, unless the
  encryption fails itself, and then that error is. If \<open>decryptLocalSettings\<close> fails, the command
  fails with its error before the \<open>try\<close>: \<open>encryptLocalSettings\<close> is not called and the files stay
  as the decryption left them. Nothing is said of what \<open>fs2\<close> holds: the file is encrypted again
  only if the call of \<open>encryptLocalSettings\<close> does it.
\<close>

theorem uploadAppSettings_reencrypts:
  assumes "getLocalSettingsFile env wp = Inr p"
    and "(case node of None \<Rightarrow> showTreeItemPicker env | Some n \<Rightarrow> Inr n) = Inr client"
    and "readJSON (parseLocalSettings env) (localDisk st) p = Inr localSettings"
    and "getProperty localSettings ''IsEncrypted'' = Inr isEncrypted" and "jsTruthy isEncrypted"
    and "decryptLocalSettings env p (localDisk st) = (d, fs1)"
    and "encryptLocalSettings env p fs1 = (r, fs2)"
  shows "markedEncrypted env (localDisk st) p \<and>
     (d = None \<longrightarrow>
        localDisk (snd (uploadAppSettings env node wp st)) = fs2 \<and>
        readLocalSettings env p (localDisk st) =
          ((case r of Some e \<Rightarrow> Inl e | None \<Rightarrow> readJSON (parseLocalSettings env) fs1 p), fs2) \<and>
        (r = None \<and> readJSON (parseLocalSettings env) fs1 p = Inl e \<longrightarrow>
           fst (uploadAppSettings env node wp st) = Inl e) \<and>
        (r = Some e' \<longrightarrow> fst (uploadAppSettings env node wp st) = Inl e')) \<and>
     (d = Some e'' \<longrightarrow>
        fst (uploadAppSettings env node wp st) = Inl e'' \<and>
        localDisk (snd (uploadAppSettings env node wp st)) = fs1)"
proof -
  have m: "markedEncrypted env (localDisk st) p"
    using assms(3-5) by (simp add: markedEncrypted_def)
  have ok: "d = None \<longrightarrow>
        localDisk (snd (uploadAppSettings env node wp st)) = fs2 \<and>
        readLocalSettings env p (localDisk st) =
          ((case r of Some e \<Rightarrow> Inl e | None \<Rightarrow> readJSON (parseLocalSettings env) fs1 p), fs2) \<and>
        (r = None \<and> readJSON (parseLocalSettings env) fs1 p = Inl e \<longrightarrow>
           fst (uploadAppSettings env node wp st) = Inl e) \<and>
        (r = Some e' \<longrightarrow> fst (uploadAppSettings env node wp st) = Inl e')"
  proof
    assume d: "d = None"
    have rd: "readLocalSettings env p (localDisk st) =
         ((case r of Some e \<Rightarrow> Inl e | None \<Rightarrow> readJSON (parseLocalSettings env) fs1 p), fs2)"
      using assms(3-5) assms(6) [unfolded d] assms(7) by (rule readLocalSettings_encrypted)
    have dk: "localDisk (snd (uploadAppSettings env node wp st)) = fs2"
      using uploadAppSettings_localDisk [OF assms(1,2), of st] rd by simp
    have e: "r = None \<and> readJSON (parseLocalSettings env) fs1 p = Inl e \<longrightarrow>
          fst (uploadAppSettings env node wp st) = Inl e"
    proof
      assume "r = None \<and> readJSON (parseLocalSettings env) fs1 p = Inl e"
      then have "fst (readLocalSettings env p (localDisk st)) = Inl e"
        using rd by simp
      then show "fst (uploadAppSettings env node wp st) = Inl e"
        using assms(1,2) by (rule uploadAppSettings_read_error [rotated 2])
    qed
    have e': "r = Some e' \<longrightarrow> fst (uploadAppSettings env node wp st) = Inl e'"
    proof
      assume "r = Some e'"
      then have "fst (readLocalSettings env p (localDisk st)) = Inl e'"
        using rd by simp
      then show "fst (uploadAppSettings env node wp st) = Inl e'"
        using assms(1,2) by (rule uploadAppSettings_read_error [rotated 2])
    qed
    from dk rd e e' show "localDisk (snd (uploadAppSettings env node wp st)) = fs2 \<and>
        readLocalSettings env p (localDisk st) =
          ((case r of Some e \<Rightarrow> Inl e | None \<Rightarrow> readJSON (parseLocalSettings env) fs1 p), fs2) \<and>
        (r = None \<and> readJSON (parseLocalSettings env) fs1 p = Inl e \<longrightarrow>
           fst (uploadAppSettings env node wp st) = Inl e) \<and>
        (r = Some e' \<longrightarrow> fst (uploadAppSettings env node wp st) = Inl e')"
      by (intro conjI)
  qed
  have bad: "d = Some e'' \<longrightarrow>
        fst (uploadAppSettings env node wp st) = Inl e'' \<and>
        localDisk (snd (uploadAppSettings env node wp st)) = fs1"
  proof
    assume d: "d = Some e''"
    have rd: "readLocalSettings env p (localDisk st) = (Inl e'', fs1)"
      using assms(3-5) assms(6) [unfolded d] by (rule readLocalSettings_decrypt_fails)
    have dk: "localDisk (snd (uploadAppSettings env node wp st)) = fs1"
      using uploadAppSettings_localDisk [OF assms(1,2), of st] rd by simp
    have "fst (readLocalSettings env p (localDisk st)) = Inl e''"
      using rd by simp
    then have "fst (uploadAppSettings env node wp st) = Inl e''"
      using assms(1,2) by (rule uploadAppSettings_read_error [rotated 2])
    with dk show "fst (uploadAppSettings env node wp st) = Inl e'' \<and>
        localDisk (snd (uploadAppSettings env node wp st)) = fs1"
      by simp
  qed
  from m ok bad show ?thesis by (intro conjI)
qed

text \<open>
  The theorem of C10 at the sample file whose decrypted text does not parse: the command fails
  with the syntax error, and the file is encrypted again. And with a decryption that fails: the
  command fails with that error and the files are untouched.
\<close>

theorem uploadAppSettings_reencrypts_witness:
  "fst (uploadAppSettings (sampleUploadEnv False) None None sampleUploadState) =
     Inl (Error ''SyntaxError'') \<and>
   files (localDisk (snd (uploadAppSettings (sampleUploadEnv False) None None sampleUploadState)))
     ''/proj/local.settings.json'' = Some (File ''encrypted'') \<and>
   fst (uploadAppSettings decryptFailsEnv None None sampleUploadState) =
     Inl (Error ''func settings decrypt failed'') \<and>
   localDisk (snd (uploadAppSettings decryptFailsEnv None None sampleUploadState)) =
     localDisk sampleUploadState"
proof -
  let ?p = "''/proj/local.settings.json''"
  let ?fs0 = "\<lparr>files = [?p \<mapsto> File ''encrypted''], writes = []\<rparr>"
  let ?fs1 = "\<lparr>files = [?p \<mapsto> File ''damaged''], writes = [?p]\<rparr>"
  let ?fs2 = "\<lparr>files = [?p \<mapsto> File ''encrypted''], writes = [?p, ?p]\<rparr>"
  let ?doc = "JObj [(''IsEncrypted'', JBool True),
                    (''Values'', JObj [(''AzureWebJobsStorage'', JStr ''CfDJ8'')])]"
  have d0: "localDisk sampleUploadState = ?fs0"
    by (simp add: sampleUploadState_def)
  have 1: "getLocalSettingsFile (sampleUploadEnv False) None = Inr ?p"
    by (simp add: sampleUploadEnv_def)
  have 2: "(case None of None \<Rightarrow> showTreeItemPicker (sampleUploadEnv False) | Some n \<Rightarrow> Inr n) =
      Inr ''my-app''"
    by (simp add: sampleUploadEnv_def)
  have 3: "readJSON (parseLocalSettings (sampleUploadEnv False)) (localDisk sampleUploadState) ?p =
      Inr ?doc"
    unfolding d0 by (simp add: sampleUploadEnv_def readJSON_def readFile_def)
  have 4: "getProperty ?doc ''IsEncrypted'' = Inr (Some (JBool True))"
    by (simp add: getProperty_def)
  have 5: "jsTruthy (Some (JBool True))"
    by (simp add: jsTruthy_def)
  have 6: "decryptLocalSettings (sampleUploadEnv False) ?p (localDisk sampleUploadState) = (None, ?fs1)"
    unfolding d0 by (simp add: sampleUploadEnv_def)
  have 7: "encryptLocalSettings (sampleUploadEnv False) ?p ?fs1 = (None, ?fs2)"
    by (simp add: sampleUploadEnv_def)
  have 8: "readJSON (parseLocalSettings (sampleUploadEnv False)) ?fs1 ?p = Inl (Error ''SyntaxError'')"
    by (simp add: sampleUploadEnv_def readJSON_def readFile_def)
  have g1: "getLocalSettingsFile decryptFailsEnv None = Inr ?p"
    by (simp add: decryptFailsEnv_def sampleUploadEnv_def)
  have g2: "(case None of None \<Rightarrow> showTreeItemPicker decryptFailsEnv | Some n \<Rightarrow> Inr n) =
      Inr ''my-app''"
    by (simp add: decryptFailsEnv_def sampleUploadEnv_def)
  have g3: "readJSON (parseLocalSettings decryptFailsEnv) (localDisk sampleUploadState) ?p =
      Inr ?doc"
    unfolding d0 by (simp add: decryptFailsEnv_def sampleUploadEnv_def readJSON_def readFile_def)
  have g6: "decryptLocalSettings decryptFailsEnv ?p (localDisk sampleUploadState) =
      (Some (Error ''func settings decrypt failed''), localDisk sampleUploadState)"
    by (simp add: decryptFailsEnv_def)
  have g7: "encryptLocalSettings decryptFailsEnv ?p (localDisk sampleUploadState) =
      (None, \<lparr>files = [?p \<mapsto> File ''encrypted''], writes = [?p]\<rparr>)"
    unfolding d0 by (simp add: decryptFailsEnv_def sampleUploadEnv_def)
  note a = uploadAppSettings_reencrypts [OF 1 2 3 4 5 6 7, of "Error ''SyntaxError''"]
  note b = uploadAppSettings_reencrypts
      [OF g1 g2 g3 4 5 g6 g7, of _ _ "Error ''func settings decrypt failed''"]
  show ?thesis
    using a b 8 by simp
qed

text \<open>
  The sample file is marked encrypted and is decrypted; the second read succeeds; the encryption
  in the \<open>finally\<close> clause fails. The command fails with the error of the encryption, and the file
  it leaves is the decrypted one.
\<close>

theorem uploadAppSettings_reencrypts_counterexample:
  "markedEncrypted encryptFailsEnv (localDisk sampleUploadState) ''/proj/local.settings.json'' \<and>
   fst (uploadAppSettings encryptFailsEnv None None sampleUploadState) =
     Inl (Error ''func settings encrypt failed'') \<and>
   files (localDisk (snd (uploadAppSettings encryptFailsEnv None None sampleUploadState)))
     ''/proj/local.settings.json'' = Some (File ''decrypted'') \<and>
   \<not> markedEncrypted encryptFailsEnv
       (localDisk (snd (uploadAppSettings encryptFailsEnv None None sampleUploadState)))
       ''/proj/local.settings.json''"
  by (simp add: markedEncrypted_def uploadAppSettings_def readLocalSettings_def encryptFailsEnv_def
      sampleUploadEnv_def sampleUploadState_def readJSON_def readFile_def getProperty_def
      jsTruthy_def Let_def)

end
